theory Spec2Isabelle
  imports Complex_Main "HOL-Library.Word"
begin

section \<open>ControlBoard\_nws\_ros2: data model\<close>

text \<open>
  The embedding follows \<^verbatim>\<open>ControlBoard_nws_ros2.cpp\<close>. Every member function takes
  the object (a record of its member variables) and returns the updated object together
  with the list of effects it had on the outside world (log lines, thread start and stop,
  device destruction, published messages), in the order of the source. A member function
  that returns \<^verbatim>\<open>bool\<close> returns that flag first. The result is wrapped in
  \<open>option\<close>: \<open>None\<close> is a failed \<^verbatim>\<open>yCAssert\<close> or the dereference of a null
  pointer, after which the process does not continue.

  A C++ \<^verbatim>\<open>double\<close> is modelled by a real number: rounding is not represented.
\<close>

datatype JointTypeEnum =
  VOCAB_JOINTTYPE_REVOLUTE | VOCAB_JOINTTYPE_PRISMATIC | VOCAB_JOINTTYPE_UNKNOWN

text \<open>A value stored in a \<^verbatim>\<open>Searchable\<close>; \<open>VNull\<close> is what \<^verbatim>\<open>find\<close> gives for a missing key.\<close>

datatype Value = VNull | VInt32 int | VFloat64 real | VString string

type_synonym Searchable = "string \<rightharpoonup> Value"

definition check :: "Searchable \<Rightarrow> string \<Rightarrow> bool" where
  "check config key = (config key \<noteq> None)"

definition find_value :: "Searchable \<Rightarrow> string \<Rightarrow> Value" where
  "find_value config key = (case config key of None \<Rightarrow> VNull | Some v \<Rightarrow> v)"

fun isFloat64 :: "Value \<Rightarrow> bool" where
  "isFloat64 (VFloat64 d) = True"
| "isFloat64 v = False"

fun asFloat64 :: "Value \<Rightarrow> real" where
  "asFloat64 (VFloat64 d) = d"
| "asFloat64 (VInt32 n) = real_of_int n"
| "asFloat64 v = 0"

fun asString :: "Value \<Rightarrow> string" where
  "asString (VString s) = s"
| "asString v = []"

text \<open>
  A device method that fills a caller's array through a raw pointer is given by the cells
  it writes: index \<open>i\<close> receives \<open>v\<close> when the method's write map gives \<open>Some v\<close> and
  keeps its old content when it gives \<open>None\<close>. Every such method also returns a success
  flag. The array keeps its length.
\<close>

type_synonym writes = "nat \<Rightarrow> real option"

fun write_from :: "writes \<Rightarrow> nat \<Rightarrow> real list \<Rightarrow> real list" where
  "write_from w i [] = []"
| "write_from w i (x # xs) = (case w i of None \<Rightarrow> x | Some v \<Rightarrow> v) # write_from w (Suc i) xs"

definition write_data :: "writes \<Rightarrow> real list \<Rightarrow> real list" where
  "write_data w buf = write_from w 0 buf"

text \<open>The four interfaces the wrapper asks the device for, each with the methods it calls.\<close>

record IPositionControl =
  getAxes :: "int option"

record IEncodersTimed =
  getEncodersTimed :: "bool \<times> writes \<times> writes"
  getEncoderSpeeds :: "bool \<times> writes"

record ITorqueControl =
  getTorques :: "bool \<times> writes"

record IAxisInfo =
  getAxisName :: "nat \<Rightarrow> string option"
  getJointType :: "nat \<Rightarrow> bool \<times> JointTypeEnum option"

text \<open>
  \<open>getAxes\<close> and \<open>getAxisName\<close> are \<open>None\<close> when the call returns false.
  \<open>getJointType\<close> returns its flag and the value it stores in the caller's variable, if it
  stores one. A \<^verbatim>\<open>PolyDriver\<close> offers a view on each interface, which is null when the device
  does not implement it.
\<close>

record PolyDriver =
  isValid :: bool
  view_IPositionControl :: "IPositionControl option"
  view_IEncodersTimed :: "IEncodersTimed option"
  view_ITorqueControl :: "ITorqueControl option"
  view_IAxisInfo :: "IAxisInfo option"

record JointState =
  header_stamp :: real
  name :: "string list"
  position :: "real list"
  velocity :: "real list"
  effort :: "real list"

datatype LogLevel = LDebug | LInfo | LWarning | LError

datatype event =
  Log LogLevel string
  | DeviceOpen
  | DeviceClose
  | DeviceDelete
  | ThreadStart
  | ThreadStop
  | Publish JointState

text \<open>
  The member variables. Their declarations are in the header; the types are those the
  source file uses them at. \<open>times_vec\<close> is the member \<^verbatim>\<open>times\<close>, \<open>time_stamp\<close> the time
  of the member \<^verbatim>\<open>time\<close>, \<open>thread_period\<close> and \<open>isRunning\<close> the state of the
  \<^verbatim>\<open>PeriodicThread\<close> base class, and \<open>m_publisher\<close> holds the topic and queue depth the
  publisher was created with.
\<close>

record ControlBoard_nws_ros2 =
  ros_struct :: JointState
  times_vec :: "real list"
  jointNames :: "string list"
  nodeName :: string
  topicName :: string
  time_stamp :: real
  counter :: "32 word"
  period :: real
  subdevice_ptr :: "PolyDriver option"
  subdevice_owned :: bool
  subdevice_joints :: nat
  subdevice_ready :: bool
  iPositionControl :: "IPositionControl option"
  iEncodersTimed :: "IEncodersTimed option"
  iTorqueControl :: "ITorqueControl option"
  iAxisInfo :: "IAxisInfo option"
  m_publisher :: "(string \<times> nat) option"
  thread_period :: real
  isRunning :: bool

text \<open>
  What the code obtains from outside the class: the \<^verbatim>\<open>PolyDriver\<close> that results from
  opening a subdevice with given properties, whether \<^verbatim>\<open>PeriodicThread::start\<close> succeeds,
  the reading of the node's clock, and the indeterminate content of the local variable
  \<^verbatim>\<open>jType\<close> of \<^verbatim>\<open>run\<close> before its first assignment.
\<close>

record environment =
  polydriver_open :: "Searchable \<Rightarrow> PolyDriver"
  thread_start :: bool
  clock_now :: real
  jType_indeterminate :: JointTypeEnum

type_synonym 'a outcome = "('a \<times> ControlBoard_nws_ros2 \<times> event list) option"

definition default_period :: real where
  "default_period = 0.02"

section \<open>Helpers of the source file and of the libraries it calls\<close>

definition convertDegreesToRadians :: "real \<Rightarrow> real" where
  "convertDegreesToRadians degrees = degrees / 180.0 * pi"

text \<open>\<^verbatim>\<open>std::vector::resize\<close>: keep the first \<open>n\<close> elements, pad with the default value.\<close>

definition resize :: "nat \<Rightarrow> 'a \<Rightarrow> 'a list \<Rightarrow> 'a list" where
  "resize n dflt xs = take n xs @ replicate (n - length xs) dflt"

text \<open>\<^verbatim>\<open>std::accumulate\<close> with its default operation.\<close>

definition accumulate :: "real list \<Rightarrow> real \<Rightarrow> real" where
  "accumulate xs init = foldl (+) init xs"

definition stop :: "ControlBoard_nws_ros2 \<Rightarrow> ControlBoard_nws_ros2 \<times> event list" where
  "stop s = (s\<lparr>isRunning := False\<rparr>, [ThreadStop])"

definition start :: "environment \<Rightarrow> ControlBoard_nws_ros2 \<Rightarrow> bool \<times> ControlBoard_nws_ros2 \<times> event list" where
  "start env s =
     (if thread_start env then (True, s\<lparr>isRunning := True\<rparr>, [ThreadStart])
      else (False, s, []))"

definition setPeriod :: "real \<Rightarrow> ControlBoard_nws_ros2 \<Rightarrow> ControlBoard_nws_ros2" where
  "setPeriod p s = s\<lparr>thread_period := p\<rparr>"

section \<open>The member functions\<close>

definition closePorts :: "ControlBoard_nws_ros2 \<Rightarrow> ControlBoard_nws_ros2 \<times> event list" where
  "closePorts s = (s, [Log LWarning ''FIXME: closePorts() is not implemented yet!''])"

definition closeDevice :: "ControlBoard_nws_ros2 \<Rightarrow> (ControlBoard_nws_ros2 \<times> event list) option" where
  "closeDevice s =
     (let cleared = (\<lambda>t. t\<lparr>subdevice_ptr := None, subdevice_owned := False,
                           subdevice_joints := 0, subdevice_ready := False,
                           times_vec := [],
                           iPositionControl := None, iEncodersTimed := None,
                           iTorqueControl := None, iAxisInfo := None\<rparr>)
      in if subdevice_owned s then
           (case subdevice_ptr s of
              None \<Rightarrow> None
            | Some d \<Rightarrow> Some (cleared s, [DeviceClose, DeviceDelete]))
         else Some (cleared s, []))"

definition close :: "ControlBoard_nws_ros2 \<Rightarrow> bool outcome" where
  "close s =
     (let (s1, e1) = (if isRunning s then stop s else (s, []))
      in case closeDevice s1 of
           None \<Rightarrow> None
         | Some (s2, e2) \<Rightarrow>
             (let (s3, e3) = closePorts s2 in Some (True, s3, e1 @ e2 @ e3)))"

text \<open>The loop of \<^verbatim>\<open>updateAxisName\<close>: \<open>Inl i\<close> is the return at the failing index \<open>i\<close>.\<close>

function axis_name_loop :: "IAxisInfo \<Rightarrow> nat \<Rightarrow> nat \<Rightarrow> string list \<Rightarrow> nat + string list" where
  "axis_name_loop ax n i tmpVect =
     (if i < n then
        (case getAxisName ax i of
           None \<Rightarrow> Inl i
         | Some tmp \<Rightarrow> axis_name_loop ax n (Suc i) (tmpVect @ [tmp]))
      else Inr tmpVect)"
  by pat_completeness auto
termination
  by (relation "measure (\<lambda>(ax, n, i, tmpVect). n - i)") auto

declare axis_name_loop.simps [simp del]

definition updateAxisName :: "ControlBoard_nws_ros2 \<Rightarrow> bool outcome" where
  "updateAxisName s =
     (case iAxisInfo s of
        None \<Rightarrow> None
      | Some ax \<Rightarrow>
          (case axis_name_loop ax (subdevice_joints s) 0 [] of
             Inl i \<Rightarrow> Some (False, s, [Log LError ''Joint name for axis not found!''])
           | Inr tmpVect \<Rightarrow>
               if length tmpVect = subdevice_joints s
               then Some (True, s\<lparr>jointNames := tmpVect\<rparr>, [])
               else None))"

definition setDevice :: "PolyDriver option \<Rightarrow> bool \<Rightarrow> ControlBoard_nws_ros2 \<Rightarrow> bool outcome" where
  "setDevice driver owned s =
     (case driver of
        None \<Rightarrow> None
      | Some d \<Rightarrow>
          (let s1 = s\<lparr>subdevice_ptr := Some d, subdevice_owned := owned\<rparr>;
               s2 = s1\<lparr>iPositionControl := view_IPositionControl d\<rparr>
           in case iPositionControl s2 of
                None \<Rightarrow> Some (False, s2,
                  [Log LError ''IPositionControl interface was not found in subdevice. Quitting''])
              | Some pos \<Rightarrow>
           (let s3 = s2\<lparr>iEncodersTimed := view_IEncodersTimed d\<rparr>
            in if iEncodersTimed s3 = None then
                 Some (False, s3,
                   [Log LError ''IEncodersTimed interface was not found in subdevice. Quitting''])
               else
           (let s4 = s3\<lparr>iTorqueControl := view_ITorqueControl d\<rparr>;
                e4 = (if iTorqueControl s4 = None
                      then [Log LWarning ''ITorqueControl interface was not found in subdevice.'']
                      else []);
                s5 = s4\<lparr>iAxisInfo := view_IAxisInfo d\<rparr>
            in if iAxisInfo s5 = None then
                 Some (False, s5,
                   e4 @ [Log LError ''IAxisInfo interface was not found in subdevice. Quitting''])
               else
           (case getAxes pos of
              None \<Rightarrow> Some (False, s5,
                e4 @ [Log LError ''Failed to get axes number for subdevice''])
            | Some tmp_axes \<Rightarrow>
                if tmp_axes \<le> 0 then
                  Some (False, s5,
                    e4 @ [Log LError ''attached device has an invalid number of joints''])
                else
                  (let n = nat tmp_axes;
                       s6 = s5\<lparr>subdevice_joints := n,
                               times_vec := resize n 0 (times_vec s5),
                               ros_struct := (ros_struct s5)
                                 \<lparr>name := resize n [] (name (ros_struct s5)),
                                  position := resize n 0 (position (ros_struct s5)),
                                  velocity := resize n 0 (velocity (ros_struct s5)),
                                  effort := resize n 0 (effort (ros_struct s5))\<rparr>\<rparr>
                   in case updateAxisName s6 of
                        None \<Rightarrow> None
                      | Some (ok, s7, e7) \<Rightarrow>
                          if \<not> ok then Some (False, s7, e4 @ e7)
                          else Some (True, s7, e4 @ e7)))))))"

definition openAndAttachSubDevice ::
  "environment \<Rightarrow> Searchable \<Rightarrow> ControlBoard_nws_ros2 \<Rightarrow> bool outcome" where
  "openAndAttachSubDevice env prop s =
     (let subdevice = asString (find_value prop ''subdevice'');
          p = prop(''device'' \<mapsto> VString subdevice);
          subDeviceOwned = polydriver_open env p;
          e1 = [Log LDebug ''opening subdevice'', DeviceOpen]
      in if \<not> isValid subDeviceOwned then
           Some (False, s, e1 @ [Log LError ''opening subdevice... FAILED''])
         else
           (case setDevice (Some subDeviceOwned) True s of
              None \<Rightarrow> None
            | Some (ok, s', e2) \<Rightarrow> Some (ok, s', e1 @ e2)))"

text \<open>
  \<^verbatim>\<open>open\<close> in three parts, in the order of the source: the period (lines 85 to 98), the
  subdevice (lines 102 to 109), then the node name, the topic name, the publisher and the
  start of the thread (lines 112 to 142). \<open>prop\<close> is a copy of \<open>config\<close>, made through its
  text form, so both are given by the same map.
\<close>

definition open_node_topic ::
  "environment \<Rightarrow> Searchable \<Rightarrow> ControlBoard_nws_ros2 \<Rightarrow> event list \<Rightarrow> bool outcome" where
  "open_node_topic env config s e =
     (if \<not> check config ''nodeName'' then
        Some (False, s, e @ [Log LError ''cannot find nodeName parameter''])
      else
        (let s1 = s\<lparr>nodeName := asString (find_value config ''nodeName'')\<rparr>;
             e1 = e @ [Log LInfo ''nodeName is'',
                       Log LWarning ''FIXME: nodeName is not currently used!'']
         in if \<not> check config ''topicName'' then
              Some (False, s1, e1 @ [Log LError ''cannot find topicName parameter''])
            else
              (let s2 = s1\<lparr>topicName := asString (find_value config ''topicName'')\<rparr>;
                   e2 = e1 @ [Log LInfo ''topicName is''];
                   s3 = s2\<lparr>m_publisher := Some (topicName s2, 10)\<rparr>
               in if subdevice_ready s3 then
                    (let (ok, s4, e4) = start env (setPeriod (period s3) s3)
                     in if \<not> ok then Some (False, s4, e2 @ e4 @ [Log LError ''Error starting thread''])
                        else Some (True, s4, e2 @ e4))
                  else Some (True, s3, e2))))"

definition open_subdevice ::
  "environment \<Rightarrow> Searchable \<Rightarrow> ControlBoard_nws_ros2 \<Rightarrow> event list \<Rightarrow> bool outcome" where
  "open_subdevice env config s e =
     (if check config ''subdevice'' then
        (case openAndAttachSubDevice env config s of
           None \<Rightarrow> None
         | Some (ok, s1, e1) \<Rightarrow>
             if \<not> ok then Some (False, s1, e @ e1 @ [Log LError ''Error while opening subdevice''])
             else open_node_topic env config (s1\<lparr>subdevice_ready := True\<rparr>) (e @ e1))
      else open_node_topic env config s e)"

definition "open" :: "environment \<Rightarrow> Searchable \<Rightarrow> ControlBoard_nws_ros2 \<Rightarrow> bool outcome" where
  "open env config s =
     (if check config ''period'' then
        (if \<not> isFloat64 (find_value config ''period'') then
           Some (False, s, [Log LError ''period parameter is not a double value''])
         else
           (let s1 = s\<lparr>period := asFloat64 (find_value config ''period'')\<rparr>
            in if period s1 \<le> 0 then
                 Some (False, s1, [Log LError ''period parameter is not valid''])
               else open_subdevice env config s1 []))
      else
        open_subdevice env config (s\<lparr>period := default_period\<rparr>)
          [Log LDebug ''period parameter missing, using default thread period = 0.02s''])"

definition attach :: "environment \<Rightarrow> PolyDriver option \<Rightarrow> ControlBoard_nws_ros2 \<Rightarrow> bool outcome" where
  "attach env poly s =
     (if subdevice_ready s then Some (False, s, [])
      else
        (case setDevice poly False s of
           None \<Rightarrow> None
         | Some (ok, s1, e1) \<Rightarrow>
             if \<not> ok then Some (False, s1, e1)
             else
               (let (started, s2, e2) = start env (setPeriod (period s1) s1)
                in if \<not> started then Some (False, s2, e1 @ e2 @ [Log LError ''Error starting thread''])
                   else Some (True, s2, e1 @ e2))))"

definition detach :: "ControlBoard_nws_ros2 \<Rightarrow> bool outcome" where
  "detach s =
     (if subdevice_owned s then Some (False, s, [])
      else
        (let (s1, e1) = (if isRunning s then stop s else (s, []))
         in case closeDevice s1 of
              None \<Rightarrow> None
            | Some (s2, e2) \<Rightarrow> Some (True, s2, e1 @ e2)))"

text \<open>A \<^verbatim>\<open>PolyDriverList\<close> entry is a key and a pointer to a \<^verbatim>\<open>PolyDriver\<close>.\<close>

definition attachAll ::
  "environment \<Rightarrow> (string \<times> PolyDriver option) list \<Rightarrow> ControlBoard_nws_ros2 \<Rightarrow> bool outcome" where
  "attachAll env p s =
     (if length p < 1 then Some (False, s, [Log LError ''No devices found''])
      else if length p > 1 then Some (False, s, [Log LError ''Cannot attach more than one device''])
      else
        (case snd (p ! 0) of
           None \<Rightarrow> None
         | Some poly \<Rightarrow>
             if \<not> isValid poly then Some (False, s, [Log LError ''Device is not valid''])
             else attach env (Some poly) s))"

definition detachAll :: "ControlBoard_nws_ros2 \<Rightarrow> bool outcome" where
  "detachAll s = detach s"

text \<open>
  The loop of \<^verbatim>\<open>run\<close> over the joints. \<open>jType\<close> is declared outside the loop and the result
  of \<^verbatim>\<open>getJointType\<close> is not looked at, so a call that stores nothing leaves the value of
  the previous iteration. Indexing a vector beyond its size has no defined result.
\<close>

function convert_loop ::
  "IAxisInfo \<Rightarrow> nat \<Rightarrow> nat \<Rightarrow> JointTypeEnum \<Rightarrow> real list \<Rightarrow> real list \<Rightarrow> (real list \<times> real list) option" where
  "convert_loop ax n i jType pos vel =
     (if i < n then
        (let jType' = (case snd (getJointType ax i) of None \<Rightarrow> jType | Some t \<Rightarrow> t)
         in if jType' = VOCAB_JOINTTYPE_REVOLUTE then
              (if i < length pos \<and> i < length vel then
                 convert_loop ax n (Suc i) jType'
                   (pos[i := convertDegreesToRadians (pos ! i)])
                   (vel[i := convertDegreesToRadians (vel ! i)])
               else None)
            else convert_loop ax n (Suc i) jType' pos vel)
      else Some (pos, vel))"
  by pat_completeness auto
termination
  by (relation "measure (\<lambda>(ax, n, i, jType, pos, vel). n - i)") auto

declare convert_loop.simps [simp del]

text \<open>
  One cycle. The three results of the reads are bound and not used, as in the source.
  \<^verbatim>\<open>time.update\<close> is given by the time it stores; the sequence number of the stamp is
  not represented. With a joint count of zero the C++ quotient is not a number, which the
  reals do not have: the mean is only meaningful for a positive joint count.
\<close>

definition run :: "environment \<Rightarrow> ControlBoard_nws_ros2 \<Rightarrow> (ControlBoard_nws_ros2 \<times> event list) option" where
  "run env s =
     (case iEncodersTimed s of
        None \<Rightarrow> None
      | Some enc \<Rightarrow>
     (case iAxisInfo s of
        None \<Rightarrow> None
      | Some ax \<Rightarrow>
          (let (positionsOk, wpos, wtime) = getEncodersTimed enc;
               rs1 = (ros_struct s)\<lparr>position := write_data wpos (position (ros_struct s))\<rparr>;
               times1 = write_data wtime (times_vec s);
               (speedsOk, wvel) = getEncoderSpeeds enc;
               rs2 = rs1\<lparr>velocity := write_data wvel (velocity rs1)\<rparr>;
               rs3 = (case iTorqueControl s of
                        None \<Rightarrow> rs2
                      | Some tq \<Rightarrow>
                          (let (torqueOk, weff) = getTorques tq
                           in rs2\<lparr>effort := write_data weff (effort rs2)\<rparr>));
               averageTime = accumulate times1 0.0 / real (subdevice_joints s)
           in case convert_loop ax (subdevice_joints s) 0 (jType_indeterminate env)
                     (position rs3) (velocity rs3) of
                None \<Rightarrow> None
              | Some (pos, vel) \<Rightarrow>
                  (let rs4 = rs3\<lparr>position := pos, velocity := vel\<rparr>;
                       rs5 = rs4\<lparr>name := jointNames s\<rparr>;
                       rs6 = rs5\<lparr>header_stamp := clock_now env\<rparr>
                   in case m_publisher s of
                        None \<Rightarrow> None
                      | Some pub \<Rightarrow>
                          Some (s\<lparr>ros_struct := rs6, times_vec := times1,
                                  time_stamp := averageTime, counter := counter s + 1\<rparr>,
                                [Publish rs6])))))"

section \<open>Observations and concrete inputs\<close>

text \<open>The three components of an outcome.\<close>

definition returned :: "'a outcome \<Rightarrow> 'a option" where
  "returned r = map_option fst r"

definition state_after :: "'a outcome \<Rightarrow> ControlBoard_nws_ros2 option" where
  "state_after r = map_option (\<lambda>x. fst (snd x)) r"

definition effects :: "'a outcome \<Rightarrow> event list option" where
  "effects r = map_option (\<lambda>x. snd (snd x)) r"

text \<open>
  No device is bound: the values \<^verbatim>\<open>closeDevice\<close> leaves in the members that describe the
  binding.
\<close>

definition unbound :: "ControlBoard_nws_ros2 \<Rightarrow> bool" where
  "unbound s =
     (subdevice_ptr s = None \<and> \<not> subdevice_owned s \<and> subdevice_joints s = 0
      \<and> \<not> subdevice_ready s \<and> times_vec s = []
      \<and> iPositionControl s = None \<and> iEncodersTimed s = None
      \<and> iTorqueControl s = None \<and> iAxisInfo s = None)"

text \<open>
  The object after its constructor: no device, no publisher, thread not running, the
  period at its default.
\<close>

definition constructed :: ControlBoard_nws_ros2 where
  "constructed =
     \<lparr>ros_struct = \<lparr>header_stamp = 0, name = [], position = [], velocity = [], effort = []\<rparr>,
      times_vec = [], jointNames = [], nodeName = [], topicName = [],
      time_stamp = 0, counter = 0, period = default_period,
      subdevice_ptr = None, subdevice_owned = False, subdevice_joints = 0,
      subdevice_ready = False,
      iPositionControl = None, iEncodersTimed = None, iTorqueControl = None, iAxisInfo = None,
      m_publisher = None, thread_period = default_period, isRunning = False\<rparr>"

text \<open>
  A device with three joints, the first and the last revolute. It reports the positions
  180, 90 and 90 degrees, the velocities 18, 9 and 9 degrees per second and the
  timestamps 1, 2 and 3. It has no torque interface.
\<close>

definition cells :: "real list \<Rightarrow> writes" where
  "cells vs = (\<lambda>i. if i < length vs then Some (vs ! i) else None)"

definition three_axes :: IPositionControl where
  "three_axes = \<lparr>getAxes = Some 3\<rparr>"

definition three_encoders :: IEncodersTimed where
  "three_encoders =
     \<lparr>getEncodersTimed = (True, cells [180, 90, 90], cells [1, 2, 3]),
      getEncoderSpeeds = (True, cells [18, 9, 9])\<rparr>"

definition three_names :: IAxisInfo where
  "three_names =
     \<lparr>getAxisName = (\<lambda>i. if i < 3 then Some ([''joint0'', ''joint1'', ''joint2''] ! i) else None),
      getJointType = (\<lambda>i. (True, Some (if i = 1 then VOCAB_JOINTTYPE_PRISMATIC
                                            else VOCAB_JOINTTYPE_REVOLUTE)))\<rparr>"

definition three_joints :: PolyDriver where
  "three_joints =
     \<lparr>isValid = True,
      view_IPositionControl = Some three_axes,
      view_IEncodersTimed = Some three_encoders,
      view_ITorqueControl = None,
      view_IAxisInfo = Some three_names\<rparr>"

text \<open>The same device when every read of a cycle fails and stores nothing.\<close>

definition failing_encoders :: IEncodersTimed where
  "failing_encoders =
     \<lparr>getEncodersTimed = (False, (\<lambda>i. None), (\<lambda>i. None)),
      getEncoderSpeeds = (False, (\<lambda>i. None))\<rparr>"

definition failing_torques :: ITorqueControl where
  "failing_torques = \<lparr>getTorques = (False, (\<lambda>i. None))\<rparr>"

text \<open>A device with two joints whose second joint has no name.\<close>

definition one_name :: IAxisInfo where
  "one_name =
     \<lparr>getAxisName = (\<lambda>i. if i = 0 then Some ''joint0'' else None),
      getJointType = (\<lambda>i. (True, Some VOCAB_JOINTTYPE_REVOLUTE))\<rparr>"

definition two_joints_one_name :: PolyDriver where
  "two_joints_one_name =
     \<lparr>isValid = True,
      view_IPositionControl = Some \<lparr>getAxes = Some 2\<rparr>,
      view_IEncodersTimed = Some three_encoders,
      view_ITorqueControl = None,
      view_IAxisInfo = Some one_name\<rparr>"

text \<open>A device that offers no interface at all, and one that reports no joints.\<close>

definition no_interfaces :: PolyDriver where
  "no_interfaces =
     \<lparr>isValid = True, view_IPositionControl = None, view_IEncodersTimed = None,
      view_ITorqueControl = None, view_IAxisInfo = None\<rparr>"

definition zero_joints :: PolyDriver where
  "zero_joints = three_joints\<lparr>view_IPositionControl := Some \<lparr>getAxes = Some 0\<rparr>\<rparr>"

text \<open>
  An environment in which every subdevice opens as \<open>three_joints\<close>, the thread starts,
  and the node's clock reads 10.
\<close>

definition lab :: environment where
  "lab =
     \<lparr>polydriver_open = (\<lambda>p. three_joints),
      thread_start = True,
      clock_now = 10,
      jType_indeterminate = VOCAB_JOINTTYPE_UNKNOWN\<rparr>"

text \<open>Configurations.\<close>

definition config_attach_later :: Searchable where
  "config_attach_later =
     [''nodeName'' \<mapsto> VString ''node'', ''topicName'' \<mapsto> VString ''/joint_states'']"

definition config_subdevice :: Searchable where
  "config_subdevice = config_attach_later(''subdevice'' \<mapsto> VString ''fakeMotionControl'')"

definition config_subdevice_no_node :: Searchable where
  "config_subdevice_no_node =
     [''subdevice'' \<mapsto> VString ''fakeMotionControl'', ''topicName'' \<mapsto> VString ''/joint_states'']"

definition config_no_topic :: Searchable where
  "config_no_topic = [''nodeName'' \<mapsto> VString ''node'']"

definition config_int_period :: Searchable where
  "config_int_period = config_attach_later(''period'' \<mapsto> VInt32 1)"

definition config_zero_period :: Searchable where
  "config_zero_period = config_attach_later(''period'' \<mapsto> VFloat64 0)"

text \<open>
  What \<^verbatim>\<open>run\<close> relies on: the interfaces it dereferences and the buffers it indexes, as a
  successful \<^verbatim>\<open>setDevice\<close> leaves them.
\<close>

definition bound_ok :: "ControlBoard_nws_ros2 \<Rightarrow> bool" where
  "bound_ok s =
     (iPositionControl s \<noteq> None \<and> iEncodersTimed s \<noteq> None \<and> iAxisInfo s \<noteq> None
      \<and> subdevice_ptr s \<noteq> None
      \<and> 0 < subdevice_joints s
      \<and> length (times_vec s) = subdevice_joints s
      \<and> length (position (ros_struct s)) = subdevice_joints s
      \<and> length (velocity (ros_struct s)) = subdevice_joints s
      \<and> length (effort (ros_struct s)) = subdevice_joints s
      \<and> length (jointNames s) = subdevice_joints s)"

text \<open>The members that hold the configuration and the thread, which binding does not touch.\<close>

definition same_setup :: "ControlBoard_nws_ros2 \<Rightarrow> ControlBoard_nws_ros2 \<Rightarrow> bool" where
  "same_setup s s' =
     (nodeName s' = nodeName s \<and> topicName s' = topicName s \<and> period s' = period s
      \<and> m_publisher s' = m_publisher s \<and> thread_period s' = thread_period s)"

text \<open>The members that describe the bound device and its buffers.\<close>

definition same_binding :: "ControlBoard_nws_ros2 \<Rightarrow> ControlBoard_nws_ros2 \<Rightarrow> bool" where
  "same_binding s s' =
     (subdevice_ptr s' = subdevice_ptr s \<and> subdevice_owned s' = subdevice_owned s
      \<and> subdevice_joints s' = subdevice_joints s \<and> subdevice_ready s' = subdevice_ready s
      \<and> times_vec s' = times_vec s \<and> ros_struct s' = ros_struct s
      \<and> jointNames s' = jointNames s
      \<and> iPositionControl s' = iPositionControl s \<and> iEncodersTimed s' = iEncodersTimed s
      \<and> iTorqueControl s' = iTorqueControl s \<and> iAxisInfo s' = iAxisInfo s)"

text \<open>
  The states the object can be in: the constructed object, and every state a member
  function returns in from such a state, whatever its arguments and the environment.
\<close>

inductive reachable :: "ControlBoard_nws_ros2 \<Rightarrow> bool" where
  after_constructor: "reachable constructed"
| after_open: "reachable s \<Longrightarrow> open env config s = Some (ok, s', e) \<Longrightarrow> reachable s'"
| after_attach: "reachable s \<Longrightarrow> attach env poly s = Some (ok, s', e) \<Longrightarrow> reachable s'"
| after_attachAll: "reachable s \<Longrightarrow> attachAll env p s = Some (ok, s', e) \<Longrightarrow> reachable s'"
| after_detach: "reachable s \<Longrightarrow> detach s = Some (ok, s', e) \<Longrightarrow> reachable s'"
| after_detachAll: "reachable s \<Longrightarrow> detachAll s = Some (ok, s', e) \<Longrightarrow> reachable s'"
| after_close: "reachable s \<Longrightarrow> close s = Some (ok, s', e) \<Longrightarrow> reachable s'"
| after_run: "reachable s \<Longrightarrow> run env s = Some (s', e) \<Longrightarrow> reachable s'"

text \<open>An owned device is there to be closed and deleted.\<close>

definition owner_has_device :: "ControlBoard_nws_ros2 \<Rightarrow> bool" where
  "owner_has_device s = (subdevice_owned s \<longrightarrow> subdevice_ptr s \<noteq> None)"

text \<open>A second device, with two joints.\<close>

definition two_joints :: PolyDriver where
  "two_joints = three_joints\<lparr>view_IPositionControl := Some \<lparr>getAxes = Some 2\<rparr>\<rparr>"

text \<open>
  States of a session in the environment \<open>lab\<close>: opened without a subdevice; opened with
  one; opened without and then attached to \<open>three_joints\<close>; the latter after one cycle;
  and that state when, at the next cycle, every read of the device fails.
\<close>

definition state_of :: "'a outcome \<Rightarrow> ControlBoard_nws_ros2" where
  "state_of r = (case r of None \<Rightarrow> constructed | Some (x, s, e) \<Rightarrow> s)"

definition configured_example :: ControlBoard_nws_ros2 where
  "configured_example = state_of (open lab config_attach_later constructed)"

definition owned_example :: ControlBoard_nws_ros2 where
  "owned_example = state_of (open lab config_subdevice constructed)"

definition attached_example :: ControlBoard_nws_ros2 where
  "attached_example = state_of (attach lab (Some three_joints) configured_example)"

definition cycled_example :: ControlBoard_nws_ros2 where
  "cycled_example = (case run lab attached_example of None \<Rightarrow> constructed | Some (s, e) \<Rightarrow> s)"

definition stale_example :: ControlBoard_nws_ros2 where
  "stale_example =
     cycled_example\<lparr>iEncodersTimed := Some failing_encoders,
                    iTorqueControl := Some failing_torques\<rparr>"

text \<open>The period setting is present and \<^verbatim>\<open>open\<close> rejects it.\<close>

definition period_invalid :: "Searchable \<Rightarrow> bool" where
  "period_invalid config =
     (case config ''period'' of
        None \<Rightarrow> False
      | Some v \<Rightarrow> \<not> isFloat64 v \<or> asFloat64 v \<le> 0)"

text \<open>A required name is missing from the configuration.\<close>

definition name_missing :: "Searchable \<Rightarrow> bool" where
  "name_missing config = (config ''nodeName'' = None \<or> config ''topicName'' = None)"

text \<open>No publisher was created and the thread was not touched.\<close>

definition nothing_started :: "ControlBoard_nws_ros2 \<Rightarrow> ControlBoard_nws_ros2 \<Rightarrow> bool" where
  "nothing_started s s' =
     (m_publisher s' = m_publisher s \<and> isRunning s' = isRunning s
      \<and> topicName s' = topicName s \<and> thread_period s' = thread_period s)"

text \<open>The object holds a device it created itself and is ready to sample it.\<close>

definition self_bound :: "ControlBoard_nws_ros2 \<Rightarrow> bool" where
  "self_bound s = (subdevice_ready s \<and> subdevice_owned s \<and> bound_ok s)"

text \<open>
  The device \<open>three_joints\<close> when the type query fails for the second joint: it returns
  false and stores nothing.
\<close>

definition unclassified_names :: IAxisInfo where
  "unclassified_names =
     \<lparr>getAxisName = (\<lambda>i. if i < 3 then Some ([''joint0'', ''joint1'', ''joint2''] ! i) else None),
      getJointType = (\<lambda>i. if i = 1 then (False, None)
                          else (True, Some VOCAB_JOINTTYPE_REVOLUTE))\<rparr>"

definition unclassified_joint :: PolyDriver where
  "unclassified_joint = three_joints\<lparr>view_IAxisInfo := Some unclassified_names\<rparr>"

definition unclassified_example :: ControlBoard_nws_ros2 where
  "unclassified_example = state_of (attach lab (Some unclassified_joint) configured_example)"

section \<open>Buffers, sums and the name query\<close>

lemma length_write_from: "length (write_from w i xs) = length xs"
  by (induction xs arbitrary: i) (auto split: option.splits)

lemma nth_write_from:
  "j < length xs \<Longrightarrow> write_from w i xs ! j = (case w (i + j) of None \<Rightarrow> xs ! j | Some v \<Rightarrow> v)"
proof (induction xs arbitrary: i j)
  case Nil
  then show ?case by simp
next
  case (Cons x xs)
  show ?case
  proof (cases j)
    case 0
    then show ?thesis by (simp split: option.splits)
  next
    case (Suc k)
    with Cons.prems have "k < length xs" by simp
    from Cons.IH [OF this, of "Suc i"] Suc show ?thesis by (simp split: option.splits)
  qed
qed

lemma length_write_data: "length (write_data w buf) = length buf"
  by (simp add: write_data_def length_write_from)

lemma nth_write_data:
  "j < length buf \<Longrightarrow> write_data w buf ! j = (case w j of None \<Rightarrow> buf ! j | Some v \<Rightarrow> v)"
  by (simp add: write_data_def nth_write_from)

lemma write_data_nothing: "write_data (\<lambda>i. None) buf = buf"
  by (rule nth_equalityI) (simp_all add: length_write_data nth_write_data)

lemma foldl_plus_sum_list: "foldl (+) a xs = a + sum_list (xs :: real list)"
  by (induction xs arbitrary: a) (simp_all add: add.assoc)

lemma accumulate_sum_list: "accumulate xs 0 = sum_list xs"
  by (simp add: accumulate_def foldl_plus_sum_list)

lemma length_resize: "length (resize n d xs) = n"
  by (simp add: resize_def)

lemma axis_name_loop_all:
  "\<forall>j. i \<le> j \<and> j < n \<longrightarrow> getAxisName ax j \<noteq> None \<Longrightarrow>
   \<exists>names. axis_name_loop ax n i tmpVect = Inr names \<and> length names = length tmpVect + (n - i)"
proof (induction ax n i tmpVect rule: axis_name_loop.induct)
  case (1 ax n i tmpVect)
  show ?case
  proof (cases "i < n")
    case False
    then show ?thesis by (simp add: axis_name_loop.simps [of ax n i tmpVect])
  next
    case True
    with "1.prems" obtain tmp where tmp: "getAxisName ax i = Some tmp" by auto
    have "\<forall>j. Suc i \<le> j \<and> j < n \<longrightarrow> getAxisName ax j \<noteq> None"
      using "1.prems" by auto
    from "1.IH" [OF True tmp this] obtain names where
      "axis_name_loop ax n (Suc i) (tmpVect @ [tmp]) = Inr names"
      "length names = length (tmpVect @ [tmp]) + (n - Suc i)" by blast
    with True tmp show ?thesis
      by (simp add: axis_name_loop.simps [of ax n i tmpVect])
  qed
qed

lemma axis_name_loop_Inr_length:
  "axis_name_loop ax n i tmpVect = Inr names \<Longrightarrow> i \<le> n \<Longrightarrow> length names = length tmpVect + (n - i)"
proof (induction ax n i tmpVect rule: axis_name_loop.induct)
  case (1 ax n i tmpVect)
  show ?case
  proof (cases "i < n")
    case False
    with "1.prems" show ?thesis by (simp add: axis_name_loop.simps [of ax n i tmpVect])
  next
    case True
    show ?thesis
    proof (cases "getAxisName ax i")
      case None
      with True "1.prems" show ?thesis by (simp add: axis_name_loop.simps [of ax n i tmpVect])
    next
      case (Some tmp)
      with True "1.prems" have "axis_name_loop ax n (Suc i) (tmpVect @ [tmp]) = Inr names"
        by (simp add: axis_name_loop.simps [of ax n i tmpVect])
      from "1.IH" [OF True Some this] True show ?thesis by simp
    qed
  qed
qed

lemma axis_name_loop_fail:
  "i \<le> k \<Longrightarrow> k < n \<Longrightarrow> getAxisName ax k = None \<Longrightarrow>
   \<exists>j. axis_name_loop ax n i tmpVect = Inl j"
proof (induction ax n i tmpVect rule: axis_name_loop.induct)
  case (1 ax n i tmpVect)
  from "1.prems" have lt: "i < n" by simp
  show ?case
  proof (cases "getAxisName ax i")
    case None
    with lt show ?thesis by (simp add: axis_name_loop.simps [of ax n i tmpVect])
  next
    case (Some tmp)
    with "1.prems" have "i \<noteq> k" by auto
    with "1.prems" have "Suc i \<le> k" by simp
    from "1.IH" [OF lt Some this "1.prems"(2,3)] lt Some show ?thesis
      by (simp add: axis_name_loop.simps [of ax n i tmpVect])
  qed
qed

lemma updateAxisName_fail:
  assumes "iAxisInfo s = Some ax" "k < subdevice_joints s" "getAxisName ax k = None"
  shows "updateAxisName s = Some (False, s, [Log LError ''Joint name for axis not found!''])"
proof -
  from axis_name_loop_fail [of 0 k "subdevice_joints s" ax "[]"] assms
  obtain j where "axis_name_loop ax (subdevice_joints s) 0 [] = Inl j" by auto
  with assms(1) show ?thesis by (simp add: updateAxisName_def)
qed

lemma updateAxisName_ok:
  assumes "iAxisInfo s = Some ax" "\<forall>j. j < subdevice_joints s \<longrightarrow> getAxisName ax j \<noteq> None"
  shows "\<exists>names. updateAxisName s = Some (True, s\<lparr>jointNames := names\<rparr>, [])
           \<and> length names = subdevice_joints s"
proof -
  from axis_name_loop_all [of 0 "subdevice_joints s" ax "[]"] assms(2)
  obtain names where "axis_name_loop ax (subdevice_joints s) 0 [] = Inr names"
    "length names = subdevice_joints s" by auto
  with assms(1) have "updateAxisName s = Some (True, s\<lparr>jointNames := names\<rparr>, [])"
    by (simp add: updateAxisName_def)
  with \<open>length names = subdevice_joints s\<close> show ?thesis by blast
qed

lemma updateAxisName_cases:
  assumes "iAxisInfo s = Some ax"
  shows "updateAxisName s = Some (False, s, [Log LError ''Joint name for axis not found!''])
       \<or> (\<exists>names. updateAxisName s = Some (True, s\<lparr>jointNames := names\<rparr>, [])
             \<and> length names = subdevice_joints s)"
proof (cases "\<forall>j. j < subdevice_joints s \<longrightarrow> getAxisName ax j \<noteq> None")
  case True
  with updateAxisName_ok [OF assms] show ?thesis by blast
next
  case False
  then obtain k where "k < subdevice_joints s" "getAxisName ax k = None" by blast
  with updateAxisName_fail [OF assms] show ?thesis by blast
qed

section \<open>Binding a device\<close>

lemma setDevice_missing:
  assumes "view_IPositionControl d = None \<or> view_IEncodersTimed d = None \<or> view_IAxisInfo d = None"
  shows "\<exists>s' e. setDevice (Some d) owned s = Some (False, s', e)
           \<and> times_vec s' = times_vec s \<and> ros_struct s' = ros_struct s
           \<and> subdevice_joints s' = subdevice_joints s \<and> jointNames s' = jointNames s
           \<and> subdevice_ptr s' = Some d \<and> subdevice_owned s' = owned
           \<and> same_setup s s' \<and> isRunning s' = isRunning s
           \<and> subdevice_ready s' = subdevice_ready s
           \<and> DeviceDelete \<notin> set e \<and> DeviceClose \<notin> set e"
  using assms by (auto simp: setDevice_def Let_def same_setup_def split: option.splits)

lemma setDevice_bad_axes:
  assumes "view_IPositionControl d = Some pc" "getAxes pc = None \<or> (\<exists>n. getAxes pc = Some n \<and> n \<le> 0)"
  shows "\<exists>s' e. setDevice (Some d) owned s = Some (False, s', e)
           \<and> times_vec s' = times_vec s \<and> ros_struct s' = ros_struct s
           \<and> subdevice_joints s' = subdevice_joints s \<and> jointNames s' = jointNames s
           \<and> subdevice_ptr s' = Some d \<and> subdevice_owned s' = owned
           \<and> same_setup s s' \<and> isRunning s' = isRunning s
           \<and> subdevice_ready s' = subdevice_ready s
           \<and> DeviceDelete \<notin> set e \<and> DeviceClose \<notin> set e"
  using assms by (auto simp: setDevice_def Let_def same_setup_def split: option.splits)

text \<open>With the three mandatory interfaces and a positive joint count, the outcome is that of
  \<open>updateAxisName\<close> in the state with the buffers resized.\<close>

lemma setDevice_reaches_names:
  assumes "view_IPositionControl d = Some pc" "view_IEncodersTimed d = Some enc"
    "view_IAxisInfo d = Some ax" "getAxes pc = Some n" "0 < n"
  shows "\<exists>s6 e4. 
      setDevice (Some d) owned s =
        (case updateAxisName s6 of None \<Rightarrow> None | Some (ok, s7, e7) \<Rightarrow> Some (ok, s7, e4 @ e7))
      \<and> (\<forall>l. Log LError l \<notin> set e4) \<and> DeviceDelete \<notin> set e4 \<and> DeviceClose \<notin> set e4
      \<and> subdevice_ptr s6 = Some d \<and> subdevice_owned s6 = owned
      \<and> iPositionControl s6 = Some pc \<and> iEncodersTimed s6 = Some enc
      \<and> iTorqueControl s6 = view_ITorqueControl d \<and> iAxisInfo s6 = Some ax
      \<and> subdevice_joints s6 = nat n
      \<and> length (times_vec s6) = nat n
      \<and> length (position (ros_struct s6)) = nat n
      \<and> length (velocity (ros_struct s6)) = nat n
      \<and> length (effort (ros_struct s6)) = nat n
      \<and> jointNames s6 = jointNames s
      \<and> nodeName s6 = nodeName s \<and> topicName s6 = topicName s \<and> period s6 = period s
      \<and> m_publisher s6 = m_publisher s \<and> isRunning s6 = isRunning s
      \<and> thread_period s6 = thread_period s \<and> subdevice_ready s6 = subdevice_ready s"
proof -
  define e4 where "e4 = (if view_ITorqueControl d = None
     then [Log LWarning ''ITorqueControl interface was not found in subdevice.''] else [])"
  define s5 where "s5 = s\<lparr>subdevice_ptr := Some d, subdevice_owned := owned,
     iPositionControl := Some pc, iEncodersTimed := Some enc,
     iTorqueControl := view_ITorqueControl d, iAxisInfo := Some ax\<rparr>"
  define s6 where "s6 = s5\<lparr>subdevice_joints := nat n,
     times_vec := resize (nat n) 0 (times_vec s5),
     ros_struct := (ros_struct s5)
       \<lparr>name := resize (nat n) [] (name (ros_struct s5)),
        position := resize (nat n) 0 (position (ros_struct s5)),
        velocity := resize (nat n) 0 (velocity (ros_struct s5)),
        effort := resize (nat n) 0 (effort (ros_struct s5))\<rparr>\<rparr>"
  have run: "setDevice (Some d) owned s =
        (case updateAxisName s6 of None \<Rightarrow> None | Some (ok, s7, e7) \<Rightarrow> Some (ok, s7, e4 @ e7))"
    using assms
    by (simp add: setDevice_def Let_def s6_def s5_def e4_def split: option.splits)
  have e4: "(\<forall>l. Log LError l \<notin> set e4) \<and> DeviceDelete \<notin> set e4 \<and> DeviceClose \<notin> set e4"
    by (simp add: e4_def)
  have fields: "subdevice_ptr s6 = Some d \<and> subdevice_owned s6 = owned
      \<and> iPositionControl s6 = Some pc \<and> iEncodersTimed s6 = Some enc
      \<and> iTorqueControl s6 = view_ITorqueControl d \<and> iAxisInfo s6 = Some ax
      \<and> subdevice_joints s6 = nat n
      \<and> length (times_vec s6) = nat n
      \<and> length (position (ros_struct s6)) = nat n
      \<and> length (velocity (ros_struct s6)) = nat n
      \<and> length (effort (ros_struct s6)) = nat n
      \<and> jointNames s6 = jointNames s
      \<and> nodeName s6 = nodeName s \<and> topicName s6 = topicName s \<and> period s6 = period s
      \<and> m_publisher s6 = m_publisher s \<and> isRunning s6 = isRunning s
      \<and> thread_period s6 = thread_period s \<and> subdevice_ready s6 = subdevice_ready s"
    by (simp add: s6_def s5_def length_resize)
  from run e4 fields show ?thesis by blast
qed

lemma setDevice_name_missing:
  assumes "view_IPositionControl d = Some pc" "view_IEncodersTimed d = Some enc"
    "view_IAxisInfo d = Some ax" "getAxes pc = Some n" "0 < n"
    "k < nat n" "getAxisName ax k = None"
  shows "\<exists>s' e. setDevice (Some d) owned s = Some (False, s', e)
      \<and> jointNames s' = jointNames s
      \<and> subdevice_ptr s' = Some d \<and> subdevice_owned s' = owned
      \<and> iPositionControl s' = Some pc \<and> iEncodersTimed s' = Some enc
      \<and> iTorqueControl s' = view_ITorqueControl d \<and> iAxisInfo s' = Some ax
      \<and> subdevice_joints s' = nat n
      \<and> length (times_vec s') = nat n
      \<and> length (position (ros_struct s')) = nat n
      \<and> length (velocity (ros_struct s')) = nat n
      \<and> length (effort (ros_struct s')) = nat n"
proof -
  from setDevice_reaches_names [OF assms(1-5), of owned s] obtain s6 e4 where
    sd: "setDevice (Some d) owned s =
        (case updateAxisName s6 of None \<Rightarrow> None | Some (ok, s7, e7) \<Rightarrow> Some (ok, s7, e4 @ e7))"
    and f: "subdevice_ptr s6 = Some d" "subdevice_owned s6 = owned"
      "iPositionControl s6 = Some pc" "iEncodersTimed s6 = Some enc"
      "iTorqueControl s6 = view_ITorqueControl d" "iAxisInfo s6 = Some ax"
      "subdevice_joints s6 = nat n"
      "length (times_vec s6) = nat n"
      "length (position (ros_struct s6)) = nat n"
      "length (velocity (ros_struct s6)) = nat n"
      "length (effort (ros_struct s6)) = nat n"
      "jointNames s6 = jointNames s"
    by blast
  from assms(6) f(7) have "k < subdevice_joints s6" by simp
  from updateAxisName_fail [OF f(6) this assms(7)] sd
  have "setDevice (Some d) owned s =
          Some (False, s6, e4 @ [Log LError ''Joint name for axis not found!''])"
    by simp
  with f show ?thesis by blast
qed

lemma setDevice_all_names:
  assumes "view_IPositionControl d = Some pc" "view_IEncodersTimed d = Some enc"
    "view_IAxisInfo d = Some ax" "getAxes pc = Some n" "0 < n"
    "\<forall>j. j < nat n \<longrightarrow> getAxisName ax j \<noteq> None"
  shows "\<exists>s' e. setDevice (Some d) owned s = Some (True, s', e)
      \<and> (\<forall>l. Log LError l \<notin> set e)
      \<and> subdevice_ptr s' = Some d \<and> subdevice_owned s' = owned
      \<and> iPositionControl s' = Some pc \<and> iEncodersTimed s' = Some enc
      \<and> iTorqueControl s' = view_ITorqueControl d \<and> iAxisInfo s' = Some ax
      \<and> subdevice_joints s' = nat n
      \<and> length (times_vec s') = nat n
      \<and> length (position (ros_struct s')) = nat n
      \<and> length (velocity (ros_struct s')) = nat n
      \<and> length (effort (ros_struct s')) = nat n
      \<and> length (jointNames s') = nat n"
proof -
  from setDevice_reaches_names [OF assms(1-5), of owned s] obtain s6 e4 where
    sd: "setDevice (Some d) owned s =
        (case updateAxisName s6 of None \<Rightarrow> None | Some (ok, s7, e7) \<Rightarrow> Some (ok, s7, e4 @ e7))"
    and e4: "\<forall>l. Log LError l \<notin> set e4"
    and f: "subdevice_ptr s6 = Some d" "subdevice_owned s6 = owned"
      "iPositionControl s6 = Some pc" "iEncodersTimed s6 = Some enc"
      "iTorqueControl s6 = view_ITorqueControl d" "iAxisInfo s6 = Some ax"
      "subdevice_joints s6 = nat n"
      "length (times_vec s6) = nat n"
      "length (position (ros_struct s6)) = nat n"
      "length (velocity (ros_struct s6)) = nat n"
      "length (effort (ros_struct s6)) = nat n"
    by blast
  from assms(6) f(7) have "\<forall>j. j < subdevice_joints s6 \<longrightarrow> getAxisName ax j \<noteq> None" by simp
  from updateAxisName_ok [OF f(6) this] obtain names where
    u: "updateAxisName s6 = Some (True, s6\<lparr>jointNames := names\<rparr>, [])"
    and len: "length names = subdevice_joints s6" by blast
  from sd u have "setDevice (Some d) owned s = Some (True, s6\<lparr>jointNames := names\<rparr>, e4)"
    by simp
  moreover have "length (jointNames (s6\<lparr>jointNames := names\<rparr>)) = nat n"
    using len f(7) by simp
  moreover have "subdevice_ptr (s6\<lparr>jointNames := names\<rparr>) = Some d"
    "subdevice_owned (s6\<lparr>jointNames := names\<rparr>) = owned"
    "iPositionControl (s6\<lparr>jointNames := names\<rparr>) = Some pc"
    "iEncodersTimed (s6\<lparr>jointNames := names\<rparr>) = Some enc"
    "iTorqueControl (s6\<lparr>jointNames := names\<rparr>) = view_ITorqueControl d"
    "iAxisInfo (s6\<lparr>jointNames := names\<rparr>) = Some ax"
    "subdevice_joints (s6\<lparr>jointNames := names\<rparr>) = nat n"
    "length (times_vec (s6\<lparr>jointNames := names\<rparr>)) = nat n"
    "length (position (ros_struct (s6\<lparr>jointNames := names\<rparr>))) = nat n"
    "length (velocity (ros_struct (s6\<lparr>jointNames := names\<rparr>))) = nat n"
    "length (effort (ros_struct (s6\<lparr>jointNames := names\<rparr>))) = nat n"
    using f by simp_all
  ultimately show ?thesis using e4 by blast
qed

text \<open>Whatever the device, setDevice returns, and keeps the configuration.\<close>

lemma setDevice_returns:
  "\<exists>ok s' e. setDevice (Some d) owned s = Some (ok, s', e)
     \<and> subdevice_ptr s' = Some d \<and> subdevice_owned s' = owned
     \<and> same_setup s s' \<and> isRunning s' = isRunning s
     \<and> subdevice_ready s' = subdevice_ready s
     \<and> DeviceDelete \<notin> set e \<and> DeviceClose \<notin> set e
     \<and> (ok \<longrightarrow> bound_ok s')"
proof (cases "view_IPositionControl d = None \<or> view_IEncodersTimed d = None \<or> view_IAxisInfo d = None")
  case True
  from setDevice_missing [OF this, of owned s] show ?thesis by blast
next
  case False
  then obtain pc enc ax where v: "view_IPositionControl d = Some pc"
    "view_IEncodersTimed d = Some enc" "view_IAxisInfo d = Some ax" by auto
  show ?thesis
  proof (cases "getAxes pc = None \<or> (\<exists>n. getAxes pc = Some n \<and> n \<le> 0)")
    case True
    from setDevice_bad_axes [OF v(1) this, of owned s] show ?thesis by blast
  next
    case False
    then obtain n where n: "getAxes pc = Some n" "0 < n"
      by (cases "getAxes pc") auto
    from setDevice_reaches_names [OF v n, of owned s] obtain s6 e4 where
      sd: "setDevice (Some d) owned s =
        (case updateAxisName s6 of None \<Rightarrow> None | Some (ok, s7, e7) \<Rightarrow> Some (ok, s7, e4 @ e7))"
      and e4: "DeviceDelete \<notin> set e4" "DeviceClose \<notin> set e4"
      and f: "subdevice_ptr s6 = Some d" "subdevice_owned s6 = owned"
        "iPositionControl s6 = Some pc" "iEncodersTimed s6 = Some enc"
        "iAxisInfo s6 = Some ax"
        "subdevice_joints s6 = nat n"
        "length (times_vec s6) = nat n"
        "length (position (ros_struct s6)) = nat n"
        "length (velocity (ros_struct s6)) = nat n"
        "length (effort (ros_struct s6)) = nat n"
      and g: "nodeName s6 = nodeName s" "topicName s6 = topicName s" "period s6 = period s"
        "m_publisher s6 = m_publisher s" "isRunning s6 = isRunning s"
        "thread_period s6 = thread_period s" "subdevice_ready s6 = subdevice_ready s"
      by blast
    from updateAxisName_cases [OF f(5)] show ?thesis
    proof
      assume "updateAxisName s6 = Some (False, s6, [Log LError ''Joint name for axis not found!''])"
      with sd have "setDevice (Some d) owned s =
          Some (False, s6, e4 @ [Log LError ''Joint name for axis not found!''])" by simp
      moreover have "same_setup s s6" using g by (simp add: same_setup_def)
      ultimately show ?thesis using e4 f(1,2) g(5,7) by auto
    next
      assume "\<exists>names. updateAxisName s6 = Some (True, s6\<lparr>jointNames := names\<rparr>, [])
             \<and> length names = subdevice_joints s6"
      then obtain names where u: "updateAxisName s6 = Some (True, s6\<lparr>jointNames := names\<rparr>, [])"
        and len: "length names = subdevice_joints s6" by blast
      from sd u have "setDevice (Some d) owned s = Some (True, s6\<lparr>jointNames := names\<rparr>, e4)"
        by simp
      moreover have "same_setup s (s6\<lparr>jointNames := names\<rparr>)"
        using g by (simp add: same_setup_def)
      moreover have "bound_ok (s6\<lparr>jointNames := names\<rparr>)"
        using f len n(2) by (simp add: bound_ok_def)
      moreover have "subdevice_ptr (s6\<lparr>jointNames := names\<rparr>) = Some d"
        "subdevice_owned (s6\<lparr>jointNames := names\<rparr>) = owned"
        "isRunning (s6\<lparr>jointNames := names\<rparr>) = isRunning s"
        "subdevice_ready (s6\<lparr>jointNames := names\<rparr>) = subdevice_ready s"
        using f g by simp_all
      ultimately show ?thesis using e4 by blast
    qed
  qed
qed

section \<open>The sampling cycle\<close>

text \<open>With buffers of at least \<open>n\<close> cells the loop over the joints returns; a joint whose type
  query stores a type is converted exactly when that type is revolute, and no other cell changes.\<close>

lemma convert_loop_result:
  assumes "n \<le> length pos" "n \<le> length vel"
  shows "\<exists>pos' vel'. convert_loop ax n i jType pos vel = Some (pos', vel')
     \<and> length pos' = length pos \<and> length vel' = length vel
     \<and> (\<forall>j. j < i \<or> n \<le> j \<longrightarrow> pos' ! j = pos ! j \<and> vel' ! j = vel ! j)
     \<and> (\<forall>j t. i \<le> j \<and> j < n \<and> snd (getJointType ax j) = Some t \<longrightarrow>
           pos' ! j = (if t = VOCAB_JOINTTYPE_REVOLUTE then convertDegreesToRadians (pos ! j) else pos ! j)
         \<and> vel' ! j = (if t = VOCAB_JOINTTYPE_REVOLUTE then convertDegreesToRadians (vel ! j) else vel ! j))"
  using assms
proof (induction ax n i jType pos vel rule: convert_loop.induct)
  case (1 ax n i jType pos vel)
  show ?case
  proof (cases "i < n")
    case False
    then show ?thesis
      by (simp add: convert_loop.simps [of ax n i jType pos vel])
  next
    case True
    define jType' where "jType' = (case snd (getJointType ax i) of None \<Rightarrow> jType | Some t \<Rightarrow> t)"
    show ?thesis
    proof (cases "jType' = VOCAB_JOINTTYPE_REVOLUTE")
      case rev: True
      define pos1 where "pos1 = pos[i := convertDegreesToRadians (pos ! i)]"
      define vel1 where "vel1 = vel[i := convertDegreesToRadians (vel ! i)]"
      from True "1.prems" have inb: "i < length pos \<and> i < length vel" by simp
      have step: "convert_loop ax n i jType pos vel = convert_loop ax n (Suc i) jType' pos1 vel1"
        using True rev inb
        by (simp add: convert_loop.simps [of ax n i jType pos vel] jType'_def pos1_def vel1_def)
      have "n \<le> length pos1" "n \<le> length vel1"
        using "1.prems" by (simp_all add: pos1_def vel1_def)
      from "1.IH"(1) [OF True jType'_def rev inb, folded pos1_def vel1_def, OF this]
      obtain pos' vel' where
        r: "convert_loop ax n (Suc i) jType' pos1 vel1 = Some (pos', vel')"
        and len: "length pos' = length pos1" "length vel' = length vel1"
        and out: "\<forall>j. j < Suc i \<or> n \<le> j \<longrightarrow> pos' ! j = pos1 ! j \<and> vel' ! j = vel1 ! j"
        and inn: "\<forall>j t. Suc i \<le> j \<and> j < n \<and> snd (getJointType ax j) = Some t \<longrightarrow>
           pos' ! j = (if t = VOCAB_JOINTTYPE_REVOLUTE then convertDegreesToRadians (pos1 ! j) else pos1 ! j)
         \<and> vel' ! j = (if t = VOCAB_JOINTTYPE_REVOLUTE then convertDegreesToRadians (vel1 ! j) else vel1 ! j)"
        by blast
      have a: "length pos' = length pos \<and> length vel' = length vel"
        using len by (simp add: pos1_def vel1_def)
      have b: "\<forall>j. j < i \<or> n \<le> j \<longrightarrow> pos' ! j = pos ! j \<and> vel' ! j = vel ! j"
        using out True by (auto simp: pos1_def vel1_def)
      have c: "\<forall>j t. i \<le> j \<and> j < n \<and> snd (getJointType ax j) = Some t \<longrightarrow>
           pos' ! j = (if t = VOCAB_JOINTTYPE_REVOLUTE then convertDegreesToRadians (pos ! j) else pos ! j)
         \<and> vel' ! j = (if t = VOCAB_JOINTTYPE_REVOLUTE then convertDegreesToRadians (vel ! j) else vel ! j)"
      proof (intro allI impI)
        fix j t assume h: "i \<le> j \<and> j < n \<and> snd (getJointType ax j) = Some t"
        show "pos' ! j = (if t = VOCAB_JOINTTYPE_REVOLUTE then convertDegreesToRadians (pos ! j) else pos ! j)
         \<and> vel' ! j = (if t = VOCAB_JOINTTYPE_REVOLUTE then convertDegreesToRadians (vel ! j) else vel ! j)"
        proof (cases "j = i")
          case True
          with h have "t = jType'" by (simp add: jType'_def)
          with rev have "t = VOCAB_JOINTTYPE_REVOLUTE" by simp
          moreover from out True have "pos' ! j = pos1 ! i \<and> vel' ! j = vel1 ! i" by simp
          ultimately show ?thesis using inb True by (simp add: pos1_def vel1_def)
        next
          case False
          with h have "Suc i \<le> j \<and> j < n \<and> snd (getJointType ax j) = Some t" by simp
          with inn have "pos' ! j = (if t = VOCAB_JOINTTYPE_REVOLUTE then convertDegreesToRadians (pos1 ! j) else pos1 ! j)
         \<and> vel' ! j = (if t = VOCAB_JOINTTYPE_REVOLUTE then convertDegreesToRadians (vel1 ! j) else vel1 ! j)"
            by blast
          with False show ?thesis by (simp add: pos1_def vel1_def)
        qed
      qed
      from step r a b c show ?thesis by simp
    next
      case norev: False
      have step: "convert_loop ax n i jType pos vel = convert_loop ax n (Suc i) jType' pos vel"
        using True norev
        by (simp add: convert_loop.simps [of ax n i jType pos vel] jType'_def)
      from "1.IH"(2) [OF True jType'_def norev "1.prems"]
      obtain pos' vel' where
        r: "convert_loop ax n (Suc i) jType' pos vel = Some (pos', vel')"
        and len: "length pos' = length pos" "length vel' = length vel"
        and out: "\<forall>j. j < Suc i \<or> n \<le> j \<longrightarrow> pos' ! j = pos ! j \<and> vel' ! j = vel ! j"
        and inn: "\<forall>j t. Suc i \<le> j \<and> j < n \<and> snd (getJointType ax j) = Some t \<longrightarrow>
           pos' ! j = (if t = VOCAB_JOINTTYPE_REVOLUTE then convertDegreesToRadians (pos ! j) else pos ! j)
         \<and> vel' ! j = (if t = VOCAB_JOINTTYPE_REVOLUTE then convertDegreesToRadians (vel ! j) else vel ! j)"
        by blast
      have b: "\<forall>j. j < i \<or> n \<le> j \<longrightarrow> pos' ! j = pos ! j \<and> vel' ! j = vel ! j"
        using out by auto
      have c: "\<forall>j t. i \<le> j \<and> j < n \<and> snd (getJointType ax j) = Some t \<longrightarrow>
           pos' ! j = (if t = VOCAB_JOINTTYPE_REVOLUTE then convertDegreesToRadians (pos ! j) else pos ! j)
         \<and> vel' ! j = (if t = VOCAB_JOINTTYPE_REVOLUTE then convertDegreesToRadians (vel ! j) else vel ! j)"
      proof (intro allI impI)
        fix j t assume h: "i \<le> j \<and> j < n \<and> snd (getJointType ax j) = Some t"
        show "pos' ! j = (if t = VOCAB_JOINTTYPE_REVOLUTE then convertDegreesToRadians (pos ! j) else pos ! j)
         \<and> vel' ! j = (if t = VOCAB_JOINTTYPE_REVOLUTE then convertDegreesToRadians (vel ! j) else vel ! j)"
        proof (cases "j = i")
          case True
          with h have "t = jType'" by (simp add: jType'_def)
          with norev have "t \<noteq> VOCAB_JOINTTYPE_REVOLUTE" by simp
          moreover from out True have "pos' ! j = pos ! i \<and> vel' ! j = vel ! i" by simp
          ultimately show ?thesis using True by simp
        next
          case False
          with h have "Suc i \<le> j \<and> j < n \<and> snd (getJointType ax j) = Some t" by simp
          with inn show ?thesis by blast
        qed
      qed
      from step r len b c show ?thesis by simp
    qed
  qed
qed

text \<open>A cycle on a bound device with a publisher returns, publishes one message and logs nothing.\<close>

lemma run_publishes:
  assumes "iEncodersTimed s = Some enc" "iAxisInfo s = Some ax" "m_publisher s = Some pub"
    "subdevice_joints s \<le> length (position (ros_struct s))"
    "subdevice_joints s \<le> length (velocity (ros_struct s))"
  shows "\<exists>s' msg. run env s = Some (s', [Publish msg])
     \<and> ros_struct s' = msg
     \<and> header_stamp msg = clock_now env
     \<and> name msg = jointNames s
     \<and> effort msg = (case iTorqueControl s of
                        None \<Rightarrow> effort (ros_struct s)
                      | Some tq \<Rightarrow> write_data (snd (getTorques tq)) (effort (ros_struct s)))
     \<and> convert_loop ax (subdevice_joints s) 0 (jType_indeterminate env)
          (write_data (fst (snd (getEncodersTimed enc))) (position (ros_struct s)))
          (write_data (snd (getEncoderSpeeds enc)) (velocity (ros_struct s)))
        = Some (position msg, velocity msg)
     \<and> times_vec s' = write_data (snd (snd (getEncodersTimed enc))) (times_vec s)
     \<and> time_stamp s' = sum_list (times_vec s') / real (subdevice_joints s)
     \<and> counter s' = counter s + 1
     \<and> same_setup s s' \<and> isRunning s' = isRunning s \<and> jointNames s' = jointNames s
     \<and> subdevice_ptr s' = subdevice_ptr s \<and> subdevice_owned s' = subdevice_owned s
     \<and> subdevice_joints s' = subdevice_joints s \<and> subdevice_ready s' = subdevice_ready s
     \<and> iPositionControl s' = iPositionControl s \<and> iEncodersTimed s' = iEncodersTimed s
     \<and> iTorqueControl s' = iTorqueControl s \<and> iAxisInfo s' = iAxisInfo s"
proof -
  define rawpos where "rawpos = write_data (fst (snd (getEncodersTimed enc))) (position (ros_struct s))"
  define rawvel where "rawvel = write_data (snd (getEncoderSpeeds enc)) (velocity (ros_struct s))"
  have "subdevice_joints s \<le> length rawpos" "subdevice_joints s \<le> length rawvel"
    using assms(4,5) by (simp_all add: rawpos_def rawvel_def length_write_data)
  from convert_loop_result [OF this, of ax 0 "jType_indeterminate env"]
  obtain pos' vel' where
    cl: "convert_loop ax (subdevice_joints s) 0 (jType_indeterminate env) rawpos rawvel = Some (pos', vel')"
    by blast
  obtain okp wpos wtime where g1: "getEncodersTimed enc = (okp, wpos, wtime)"
    by (cases "getEncodersTimed enc") auto
  obtain okv wvel where g2: "getEncoderSpeeds enc = (okv, wvel)"
    by (cases "getEncoderSpeeds enc") auto
  show ?thesis
  proof (cases "iTorqueControl s")
    case None
    with assms(1-3) g1 g2 cl show ?thesis
      by (simp add: run_def Let_def rawpos_def rawvel_def accumulate_sum_list same_setup_def)
  next
    case (Some tq)
    obtain okt weff where g3: "getTorques tq = (okt, weff)"
      by (cases "getTorques tq") auto
    with Some assms(1-3) g1 g2 cl show ?thesis
      by (simp add: run_def Let_def rawpos_def rawvel_def accumulate_sum_list same_setup_def)
  qed
qed

section \<open>Evaluation of the concrete inputs\<close>

lemmas example_defs =
  lab_def three_joints_def three_axes_def three_encoders_def three_names_def
  config_attach_later_def config_subdevice_def config_subdevice_no_node_def
  config_no_topic_def config_int_period_def config_zero_period_def
  constructed_def default_period_def cells_def
  two_joints_one_name_def one_name_def no_interfaces_def zero_joints_def
  failing_encoders_def failing_torques_def two_joints_def
  state_of_def configured_example_def owned_example_def attached_example_def
  cycled_example_def stale_example_def
  unclassified_names_def unclassified_joint_def unclassified_example_def

lemmas eval_defs =
  open_def open_subdevice_def open_node_topic_def openAndAttachSubDevice_def
  setDevice_def updateAxisName_def attach_def detach_def close_def closeDevice_def
  closePorts_def start_def stop_def setPeriod_def check_def find_value_def
  resize_def Let_def returned_def state_after_def effects_def run_def
  write_data_def accumulate_def attachAll_def detachAll_def
  axis_name_loop.simps convert_loop.simps convertDegreesToRadians_def eval_nat_numeral

section \<open>Releasing the device\<close>

lemma closeDevice_returns:
  assumes "owner_has_device s"
  shows "\<exists>s' e. closeDevice s = Some (s', e) \<and> unbound s' \<and> same_setup s s'
     \<and> isRunning s' = isRunning s
     \<and> e = (if subdevice_owned s then [DeviceClose, DeviceDelete] else [])"
  using assms
  by (auto simp: closeDevice_def owner_has_device_def unbound_def same_setup_def)

lemma closeDevice_unbound:
  assumes "unbound s"
  shows "closeDevice s = Some (s, [])"
  using assms by (simp add: closeDevice_def unbound_def)

section \<open>Opening\<close>

lemma same_binding_refl: "same_binding s s"
  by (simp add: same_binding_def)

lemma same_binding_owner:
  "same_binding s s' \<Longrightarrow> owner_has_device s \<Longrightarrow> owner_has_device s'"
  by (simp add: same_binding_def owner_has_device_def)

lemma same_binding_unbound: "same_binding s s' \<Longrightarrow> unbound s \<Longrightarrow> unbound s'"
  by (simp add: same_binding_def unbound_def)

lemma same_binding_bound_ok: "same_binding s s' \<Longrightarrow> bound_ok s \<Longrightarrow> bound_ok s'"
  by (simp add: same_binding_def bound_ok_def)

lemma same_binding_trans: "same_binding s s' \<Longrightarrow> same_binding s' s'' \<Longrightarrow> same_binding s s''"
  by (simp add: same_binding_def)

lemma bound_ok_owner: "bound_ok s \<Longrightarrow> owner_has_device s"
  by (simp add: bound_ok_def owner_has_device_def)

lemma openAndAttachSubDevice_returns:
  "\<exists>ok s' e. openAndAttachSubDevice env prop s = Some (ok, s', e)
     \<and> same_setup s s' \<and> isRunning s' = isRunning s
     \<and> subdevice_ready s' = subdevice_ready s
     \<and> (owner_has_device s \<longrightarrow> owner_has_device s')
     \<and> DeviceDelete \<notin> set e
     \<and> (ok \<longrightarrow> bound_ok s' \<and> subdevice_owned s')"
proof -
  define d where "d = polydriver_open env (prop(''device'' \<mapsto> VString (asString (find_value prop ''subdevice''))))"
  show ?thesis
  proof (cases "isValid d")
    case False
    then have "openAndAttachSubDevice env prop s =
         Some (False, s, [Log LDebug ''opening subdevice'', DeviceOpen]
                 @ [Log LError ''opening subdevice... FAILED''])"
      by (simp add: openAndAttachSubDevice_def Let_def d_def)
    moreover have "same_setup s s" by (simp add: same_setup_def)
    ultimately show ?thesis by auto
  next
    case True
    from setDevice_returns [of d True s] obtain ok s' e where
      sd: "setDevice (Some d) True s = Some (ok, s', e)"
      and f: "subdevice_ptr s' = Some d" "subdevice_owned s' = True" "same_setup s s'"
        "isRunning s' = isRunning s" "subdevice_ready s' = subdevice_ready s"
        "DeviceDelete \<notin> set e" "ok \<longrightarrow> bound_ok s'"
      by blast
    from True sd have
      "openAndAttachSubDevice env prop s =
         Some (ok, s', [Log LDebug ''opening subdevice'', DeviceOpen] @ e)"
      by (simp add: openAndAttachSubDevice_def Let_def d_def)
    moreover have "owner_has_device s'" using f(1) by (simp add: owner_has_device_def)
    moreover have "DeviceDelete \<notin> set ([Log LDebug ''opening subdevice'', DeviceOpen] @ e)"
      using f(6) by simp
    ultimately have "openAndAttachSubDevice env prop s
         = Some (ok, s', [Log LDebug ''opening subdevice'', DeviceOpen] @ e)
     \<and> same_setup s s' \<and> isRunning s' = isRunning s
     \<and> subdevice_ready s' = subdevice_ready s
     \<and> (owner_has_device s \<longrightarrow> owner_has_device s')
     \<and> DeviceDelete \<notin> set ([Log LDebug ''opening subdevice'', DeviceOpen] @ e)
     \<and> (ok \<longrightarrow> bound_ok s' \<and> subdevice_owned s')"
      using f by simp
    then show ?thesis by (intro exI)
  qed
qed

lemma open_node_topic_returns:
  "\<exists>ok s' e'. open_node_topic env config s e = Some (ok, s', e')
     \<and> same_binding s s' \<and> period s' = period s
     \<and> (name_missing config \<longrightarrow> \<not> ok \<and> nothing_started s s')"
proof (cases "config ''nodeName'' = None")
  case True
  then have "open_node_topic env config s e =
      Some (False, s, e @ [Log LError ''cannot find nodeName parameter''])"
    by (simp add: open_node_topic_def check_def)
  moreover have "same_binding s s" "nothing_started s s"
    by (simp_all add: same_binding_def nothing_started_def)
  ultimately have "open_node_topic env config s e =
      Some (False, s, e @ [Log LError ''cannot find nodeName parameter''])
     \<and> same_binding s s \<and> period s = period s
     \<and> (name_missing config \<longrightarrow> \<not> False \<and> nothing_started s s)"
    by simp
  then show ?thesis by (intro exI)
next
  case node: False
  show ?thesis
  proof (cases "config ''topicName'' = None")
    case True
    define s1 where "s1 = s\<lparr>nodeName := asString (find_value config ''nodeName'')\<rparr>"
    define e1 where "e1 =
        (e @ [Log LInfo ''nodeName is'', Log LWarning ''FIXME: nodeName is not currently used!''])
          @ [Log LError ''cannot find topicName parameter'']"
    from True node have "open_node_topic env config s e = Some (False, s1, e1)"
      by (simp add: open_node_topic_def check_def Let_def s1_def e1_def)
    moreover have "same_binding s s1" "nothing_started s s1" "period s1 = period s"
      by (simp_all add: same_binding_def nothing_started_def s1_def)
    ultimately have "open_node_topic env config s e = Some (False, s1, e1)
       \<and> same_binding s s1 \<and> period s1 = period s
       \<and> (name_missing config \<longrightarrow> \<not> False \<and> nothing_started s s1)"
      by simp
    then show ?thesis by (intro exI)
  next
    case False
    with node have nt: "check config ''nodeName''" "check config ''topicName''"
      and nm: "\<not> name_missing config"
      by (simp_all add: check_def name_missing_def)
    define s3 where "s3 = s\<lparr>nodeName := asString (find_value config ''nodeName''),
        topicName := asString (find_value config ''topicName''),
        m_publisher := Some (asString (find_value config ''topicName''), 10)\<rparr>"
    define e2 where "e2 =
        (e @ [Log LInfo ''nodeName is'', Log LWarning ''FIXME: nodeName is not currently used!''])
          @ [Log LInfo ''topicName is'']"
    define s4 where "s4 = setPeriod (period s3) s3"
    have same3: "same_binding s s3" "period s3 = period s"
      by (simp_all add: s3_def same_binding_def)
    have same4: "same_binding s s4" "period s4 = period s"
      "same_binding s (s4\<lparr>isRunning := True\<rparr>)" "period (s4\<lparr>isRunning := True\<rparr>) = period s"
      by (simp_all add: s4_def s3_def setPeriod_def same_binding_def)
    show ?thesis
    proof (cases "subdevice_ready s")
      case False
      with nt have "open_node_topic env config s e = Some (True, s3, e2)"
        by (simp add: open_node_topic_def Let_def s3_def e2_def)
      with nm same3 have "open_node_topic env config s e = Some (True, s3, e2)
         \<and> same_binding s s3 \<and> period s3 = period s
         \<and> (name_missing config \<longrightarrow> \<not> True \<and> nothing_started s s3)"
        by simp
      then show ?thesis by (intro exI)
    next
      case ready: True
      show ?thesis
      proof (cases "thread_start env")
        case True
        with nt ready have "open_node_topic env config s e =
            Some (True, s4\<lparr>isRunning := True\<rparr>, e2 @ [ThreadStart])"
          by (simp add: open_node_topic_def Let_def s3_def e2_def s4_def start_def)
        with nm same4 have "open_node_topic env config s e =
            Some (True, s4\<lparr>isRunning := True\<rparr>, e2 @ [ThreadStart])
         \<and> same_binding s (s4\<lparr>isRunning := True\<rparr>)
         \<and> period (s4\<lparr>isRunning := True\<rparr>) = period s
         \<and> (name_missing config \<longrightarrow> \<not> True \<and> nothing_started s (s4\<lparr>isRunning := True\<rparr>))"
          by simp
        then show ?thesis by (intro exI)
      next
        case False
        with nt ready have "open_node_topic env config s e =
            Some (False, s4, e2 @ [] @ [Log LError ''Error starting thread''])"
          by (simp add: open_node_topic_def Let_def s3_def e2_def s4_def start_def)
        with nm same4 have "open_node_topic env config s e =
            Some (False, s4, e2 @ [] @ [Log LError ''Error starting thread''])
         \<and> same_binding s s4 \<and> period s4 = period s
         \<and> (name_missing config \<longrightarrow> \<not> False \<and> nothing_started s s4)"
          by simp
        then show ?thesis by (intro exI)
      qed
    qed
  qed
qed

lemma open_subdevice_returns:
  "\<exists>ok s' e'. open_subdevice env config s e = Some (ok, s', e')
     \<and> period s' = period s
     \<and> (owner_has_device s \<longrightarrow> owner_has_device s')
     \<and> (config ''subdevice'' = None \<longrightarrow> same_binding s s')
     \<and> (name_missing config \<longrightarrow> \<not> ok \<and> nothing_started s s')
     \<and> (ok \<and> config ''subdevice'' \<noteq> None \<longrightarrow> self_bound s')"
proof (cases "config ''subdevice'' = None")
  case True
  then have eq: "open_subdevice env config s e = open_node_topic env config s e"
    by (simp add: open_subdevice_def check_def)
  from open_node_topic_returns [of env config s e] obtain ok s' e' where
    r: "open_node_topic env config s e = Some (ok, s', e')"
    and f: "same_binding s s'" "period s' = period s"
      "name_missing config \<longrightarrow> \<not> ok \<and> nothing_started s s'"
    by blast
  have "owner_has_device s \<longrightarrow> owner_has_device s'"
    using same_binding_owner [OF f(1)] by blast
  moreover from eq r have "open_subdevice env config s e = Some (ok, s', e')" by simp
  ultimately have "open_subdevice env config s e = Some (ok, s', e')
     \<and> period s' = period s
     \<and> (owner_has_device s \<longrightarrow> owner_has_device s')
     \<and> (config ''subdevice'' = None \<longrightarrow> same_binding s s')
     \<and> (name_missing config \<longrightarrow> \<not> ok \<and> nothing_started s s')
     \<and> (ok \<and> config ''subdevice'' \<noteq> None \<longrightarrow> self_bound s')"
    using f True by simp
  then show ?thesis by (intro exI)
next
  case sub: False
  from openAndAttachSubDevice_returns [of env config s] obtain ok1 s1 e1 where
    r1: "openAndAttachSubDevice env config s = Some (ok1, s1, e1)"
    and f1: "same_setup s s1" "isRunning s1 = isRunning s"
      "owner_has_device s \<longrightarrow> owner_has_device s1"
      "ok1 \<longrightarrow> bound_ok s1 \<and> subdevice_owned s1"
    by blast
  show ?thesis
  proof (cases ok1)
    case False
    with sub r1 have "open_subdevice env config s e =
        Some (False, s1, e @ e1 @ [Log LError ''Error while opening subdevice''])"
      by (simp add: open_subdevice_def check_def)
    moreover have "nothing_started s s1" "period s1 = period s"
      using f1(1,2) by (simp_all add: nothing_started_def same_setup_def)
    ultimately have "open_subdevice env config s e =
        Some (False, s1, e @ e1 @ [Log LError ''Error while opening subdevice''])
     \<and> period s1 = period s
     \<and> (owner_has_device s \<longrightarrow> owner_has_device s1)
     \<and> (config ''subdevice'' = None \<longrightarrow> same_binding s s1)
     \<and> (name_missing config \<longrightarrow> \<not> False \<and> nothing_started s s1)
     \<and> (False \<and> config ''subdevice'' \<noteq> None \<longrightarrow> self_bound s1)"
      using f1(3) sub by (cases "config ''subdevice''") simp_all
    then show ?thesis by (intro exI)
  next
    case True
    define s2 where "s2 = s1\<lparr>subdevice_ready := True\<rparr>"
    from True sub r1 have eq: "open_subdevice env config s e = open_node_topic env config s2 (e @ e1)"
      by (simp add: open_subdevice_def check_def s2_def)
    from True f1(4) have b2: "self_bound s2"
      by (simp add: s2_def bound_ok_def self_bound_def)
    from f1(1,2) have g2: "period s2 = period s" "nothing_started s s2"
      by (simp_all add: s2_def same_setup_def nothing_started_def)
    from open_node_topic_returns [of env config s2 "e @ e1"] obtain ok s' e' where
      r: "open_node_topic env config s2 (e @ e1) = Some (ok, s', e')"
      and f: "same_binding s2 s'" "period s' = period s2"
        "name_missing config \<longrightarrow> \<not> ok \<and> nothing_started s2 s'"
      by blast
    have b: "self_bound s'"
      using same_binding_bound_ok [OF f(1)] f(1) b2 by (simp add: self_bound_def same_binding_def)
    then have o: "owner_has_device s'" by (simp add: self_bound_def bound_ok_owner)
    have ns: "name_missing config \<longrightarrow> \<not> ok \<and> nothing_started s s'"
      using f(3) g2(2) by (auto simp: nothing_started_def)
    from eq r have "open_subdevice env config s e = Some (ok, s', e')" by simp
    moreover have "period s' = period s" using f(2) g2(1) by simp
    ultimately have "open_subdevice env config s e = Some (ok, s', e')
     \<and> period s' = period s
     \<and> (owner_has_device s \<longrightarrow> owner_has_device s')
     \<and> (config ''subdevice'' = None \<longrightarrow> same_binding s s')
     \<and> (name_missing config \<longrightarrow> \<not> ok \<and> nothing_started s s')
     \<and> (ok \<and> config ''subdevice'' \<noteq> None \<longrightarrow> self_bound s')"
      using b o ns sub by (cases "config ''subdevice''") simp_all
    then show ?thesis by (intro exI)
  qed
qed

lemma open_returns:
  "\<exists>ok s' e. open env config s = Some (ok, s', e)
     \<and> (owner_has_device s \<longrightarrow> owner_has_device s')
     \<and> (config ''subdevice'' = None \<or> period_invalid config \<longrightarrow> same_binding s s')
     \<and> (name_missing config \<or> period_invalid config \<longrightarrow> \<not> ok \<and> nothing_started s s')
     \<and> (ok \<and> config ''subdevice'' \<noteq> None \<longrightarrow> self_bound s')"
proof (cases "period_invalid config")
  case True
  then obtain v where v: "config ''period'' = Some v" "\<not> isFloat64 v \<or> asFloat64 v \<le> 0"
    by (auto simp: period_invalid_def split: option.splits)
  define s1 where "s1 = (if isFloat64 v then s\<lparr>period := asFloat64 v\<rparr> else s)"
  define e1 where "e1 = (if isFloat64 v then [Log LError ''period parameter is not valid'']
     else [Log LError ''period parameter is not a double value''])"
  from v have "open env config s = Some (False, s1, e1)"
    by (simp add: open_def check_def find_value_def Let_def s1_def e1_def)
  moreover have "same_binding s s1" "nothing_started s s1"
    by (simp_all add: s1_def same_binding_def nothing_started_def)
  moreover from this(1) have "owner_has_device s \<longrightarrow> owner_has_device s1"
    using same_binding_owner by blast
  ultimately have "open env config s = Some (False, s1, e1)
     \<and> (owner_has_device s \<longrightarrow> owner_has_device s1)
     \<and> (config ''subdevice'' = None \<or> period_invalid config \<longrightarrow> same_binding s s1)
     \<and> (name_missing config \<or> period_invalid config \<longrightarrow> \<not> False \<and> nothing_started s s1)
     \<and> (False \<and> config ''subdevice'' \<noteq> None \<longrightarrow> self_bound s1)"
    by simp
  then show ?thesis by (intro exI)
next
  case valid: False
  define s1 where "s1 = (case config ''period'' of None \<Rightarrow> s\<lparr>period := default_period\<rparr>
     | Some v \<Rightarrow> s\<lparr>period := asFloat64 v\<rparr>)"
  define e1 where "e1 = (case config ''period'' of
       None \<Rightarrow> [Log LDebug ''period parameter missing, using default thread period = 0.02s'']
     | Some v \<Rightarrow> [])"
  from valid have eq: "open env config s = open_subdevice env config s1 e1"
    by (cases "config ''period''")
      (simp_all add: open_def check_def find_value_def Let_def period_invalid_def s1_def e1_def)
  have s1: "same_binding s s1" "nothing_started s s1"
    by (simp_all add: s1_def same_binding_def nothing_started_def split: option.splits)
  from open_subdevice_returns [of env config s1 e1] obtain ok s' e' where
    r: "open_subdevice env config s1 e1 = Some (ok, s', e')"
    and f: "owner_has_device s1 \<longrightarrow> owner_has_device s'"
      "config ''subdevice'' = None \<longrightarrow> same_binding s1 s'"
      "name_missing config \<longrightarrow> \<not> ok \<and> nothing_started s1 s'"
      "ok \<and> config ''subdevice'' \<noteq> None \<longrightarrow> self_bound s'"
    by (elim exE conjE) (rule that)
  have a: "owner_has_device s \<longrightarrow> owner_has_device s'"
    using f(1) same_binding_owner [OF s1(1)] by blast
  have b: "config ''subdevice'' = None \<longrightarrow> same_binding s s'"
    using f(2) same_binding_trans [OF s1(1)] by blast
  have c: "name_missing config \<longrightarrow> \<not> ok \<and> nothing_started s s'"
    using f(3) s1(2) by (auto simp: nothing_started_def)
  from eq r have "open env config s = Some (ok, s', e')" by simp
  with a b c f(4) valid have "open env config s = Some (ok, s', e')
     \<and> (owner_has_device s \<longrightarrow> owner_has_device s')
     \<and> (config ''subdevice'' = None \<or> period_invalid config \<longrightarrow> same_binding s s')
     \<and> (name_missing config \<or> period_invalid config \<longrightarrow> \<not> ok \<and> nothing_started s s')
     \<and> (ok \<and> config ''subdevice'' \<noteq> None \<longrightarrow> self_bound s')"
    by simp
  then show ?thesis by (intro exI)
qed

section \<open>An owned device is never missing\<close>

lemma open_owner:
  assumes "open env config s = Some (ok, s', e)" "owner_has_device s"
  shows "owner_has_device s'"
  using open_returns [of env config s] assms by auto

lemma attach_owner:
  assumes "attach env poly s = Some (ok, s', e)" "owner_has_device s"
  shows "owner_has_device s'"
proof (cases "subdevice_ready s")
  case True
  with assms show ?thesis by (simp add: attach_def)
next
  case False
  show ?thesis
  proof (cases poly)
    case None
    with False assms(1) show ?thesis by (simp add: attach_def setDevice_def)
  next
    case (Some d)
    from setDevice_returns [of d False s] obtain ok1 s1 e1 where
      sd: "setDevice (Some d) False s = Some (ok1, s1, e1)"
      and p: "subdevice_ptr s1 = Some d" by blast
    from False Some sd assms(1) have "subdevice_ptr s' = Some d"
      using p
      by (cases ok1; cases "thread_start env")
        (auto simp: attach_def start_def setPeriod_def Let_def)
    then show ?thesis by (simp add: owner_has_device_def)
  qed
qed

lemma attachAll_owner:
  assumes "attachAll env p s = Some (ok, s', e)" "owner_has_device s"
  shows "owner_has_device s'"
proof (cases "length p < 1 \<or> length p > 1")
  case True
  with assms show ?thesis by (auto simp: attachAll_def split: if_splits)
next
  case False
  show ?thesis
  proof (cases "snd (p ! 0)")
    case None
    with False assms(1) show ?thesis by (simp add: attachAll_def)
  next
    case (Some poly)
    show ?thesis
    proof (cases "isValid poly")
      case True
      with False Some assms(1) have "attach env (Some poly) s = Some (ok, s', e)"
        by (simp add: attachAll_def)
      from attach_owner [OF this assms(2)] show ?thesis .
    next
      case invalid: False
      with False Some assms show ?thesis by (simp add: attachAll_def)
    qed
  qed
qed

lemma unbound_owner: "unbound s \<Longrightarrow> owner_has_device s"
  by (simp add: unbound_def owner_has_device_def)

lemma closeDevice_Some_unbound:
  "closeDevice s = Some (s', e) \<Longrightarrow> unbound s'"
  by (auto simp: closeDevice_def unbound_def split: if_splits option.splits)

lemma detach_owner:
  assumes "detach s = Some (ok, s', e)" "owner_has_device s"
  shows "owner_has_device s'"
proof (cases "subdevice_owned s")
  case True
  with assms show ?thesis by (simp add: detach_def)
next
  case False
  define s1 where "s1 = (if isRunning s then s\<lparr>isRunning := False\<rparr> else s)"
  from False assms(1) obtain e2 where "closeDevice s1 = Some (s', e2)"
    by (auto simp: detach_def stop_def s1_def split: option.splits if_splits)
  from closeDevice_Some_unbound [OF this] show ?thesis by (rule unbound_owner)
qed

lemma close_owner:
  assumes "close s = Some (ok, s', e)"
  shows "owner_has_device s'"
proof -
  define s1 where "s1 = (if isRunning s then s\<lparr>isRunning := False\<rparr> else s)"
  from assms obtain e2 where "closeDevice s1 = Some (s', e2)"
    by (auto simp: close_def stop_def closePorts_def s1_def split: option.splits if_splits)
  from closeDevice_Some_unbound [OF this] show ?thesis by (rule unbound_owner)
qed

lemma run_owner:
  assumes "run env s = Some (s', e)" "owner_has_device s"
  shows "owner_has_device s'"
proof -
  from assms(1) have "subdevice_owned s' = subdevice_owned s \<and> subdevice_ptr s' = subdevice_ptr s"
    by (auto simp: run_def Let_def split: option.splits prod.splits)
  with assms(2) show ?thesis by (simp add: owner_has_device_def)
qed

lemma reachable_owner: "reachable s \<Longrightarrow> owner_has_device s"
proof (induction rule: reachable.induct)
  case after_constructor
  show ?case by (simp add: owner_has_device_def constructed_def)
next
  case (after_open s env config ok s' e)
  then show ?case by (blast intro: open_owner)
next
  case (after_attach s env poly ok s' e)
  then show ?case by (blast intro: attach_owner)
next
  case (after_attachAll s env p ok s' e)
  then show ?case by (blast intro: attachAll_owner)
next
  case (after_detach s ok s' e)
  then show ?case by (blast intro: detach_owner)
next
  case (after_detachAll s ok s' e)
  then show ?case by (simp add: detachAll_def) (blast intro: detach_owner)
next
  case (after_close s ok s' e)
  then show ?case by (blast intro: close_owner)
next
  case (after_run s env s' e)
  then show ?case by (blast intro: run_owner)
qed

lemma reachable_open: "reachable s \<Longrightarrow> reachable (state_of (open env config s))"
proof -
  assume r: "reachable s"
  from open_returns [of env config s] obtain ok s' e where
    o: "open env config s = Some (ok, s', e)" by blast
  then have "state_of (open env config s) = s'" by (simp add: state_of_def)
  with after_open [OF r o] show ?thesis by simp
qed

lemma reachable_attach: "reachable s \<Longrightarrow> reachable (state_of (attach env poly s))"
proof (cases "attach env poly s")
  case None
  then show ?thesis by (simp add: state_of_def after_constructor)
next
  case (Some r)
  assume "reachable s"
  with Some show ?thesis
    by (cases r) (auto simp: state_of_def intro: after_attach)
qed

lemma reachable_examples:
  "reachable configured_example" "reachable owned_example" "reachable attached_example"
  by (simp_all add: configured_example_def owned_example_def attached_example_def
      reachable_open reachable_attach after_constructor)

section \<open>What a successful bind and a cycle establish\<close>

lemma bound_ok_buffers:
  "bound_ok s \<Longrightarrow>
     subdevice_joints s \<le> length (position (ros_struct s))
     \<and> subdevice_joints s \<le> length (velocity (ros_struct s))
     \<and> iEncodersTimed s \<noteq> None \<and> iAxisInfo s \<noteq> None"
  by (simp add: bound_ok_def)

lemma attach_success:
  assumes "attach env poly s = Some (True, s', e)"
  shows "bound_ok s' \<and> isRunning s' \<and> \<not> subdevice_owned s' \<and> \<not> subdevice_ready s'"
proof (cases poly)
  case None
  with assms show ?thesis
    by (simp add: attach_def setDevice_def split: if_splits)
next
  case (Some d)
  from assms have nr: "\<not> subdevice_ready s"
    by (auto simp: attach_def split: if_splits)
  from setDevice_returns [of d False s] obtain ok1 s1 e1 where
    sd: "setDevice (Some d) False s = Some (ok1, s1, e1)"
    and f: "subdevice_owned s1 = False" "subdevice_ready s1 = subdevice_ready s"
      "ok1 \<longrightarrow> bound_ok s1"
    by blast
  from assms Some nr sd have ok1: ok1 and st: "thread_start env"
    and s': "s' = (setPeriod (period s1) s1)\<lparr>isRunning := True\<rparr>"
    by (auto simp: attach_def start_def Let_def split: if_splits)
  from f ok1 nr show ?thesis
    by (simp add: s' setPeriod_def bound_ok_def)
qed

text \<open>
  The timestamp a cycle keeps is the mean of the per-joint timestamps; the stamp it
  publishes is the reading of the node's clock.
\<close>

lemma run_stamps:
  assumes "iEncodersTimed s = Some enc" "iAxisInfo s = Some ax" "m_publisher s = Some pub"
    "subdevice_joints s \<le> length (position (ros_struct s))"
    "subdevice_joints s \<le> length (velocity (ros_struct s))"
  shows "\<exists>s' msg. run env s = Some (s', [Publish msg])
     \<and> time_stamp s' = sum_list (times_vec s') / real (subdevice_joints s)
     \<and> header_stamp msg = clock_now env"
  using run_publishes [OF assms, of env] by blast

text \<open>
  A joint whose type query stores a type in this cycle: its position and velocity are
  published converted when that type is revolute, and as read otherwise. On three joints
  of types revolute, prismatic, revolute with positions 180, 90 and 90 degrees the
  published positions are \<open>\<pi>\<close>, 90 and \<open>\<pi> / 2\<close>.
\<close>

lemma run_converts_classified_joints:
  assumes "iEncodersTimed s = Some enc" "iAxisInfo s = Some ax" "m_publisher s = Some pub"
    "subdevice_joints s \<le> length (position (ros_struct s))"
    "subdevice_joints s \<le> length (velocity (ros_struct s))"
    "i < subdevice_joints s"
  shows "\<exists>s' msg. run env s = Some (s', [Publish msg])
     \<and> (snd (getJointType ax i) = Some VOCAB_JOINTTYPE_REVOLUTE \<longrightarrow>
          position msg ! i
            = write_data (fst (snd (getEncodersTimed enc))) (position (ros_struct s)) ! i * pi / 180
        \<and> velocity msg ! i
            = write_data (snd (getEncoderSpeeds enc)) (velocity (ros_struct s)) ! i * pi / 180)
     \<and> (\<forall>t. snd (getJointType ax i) = Some t \<and> t \<noteq> VOCAB_JOINTTYPE_REVOLUTE \<longrightarrow>
          position msg ! i
            = write_data (fst (snd (getEncodersTimed enc))) (position (ros_struct s)) ! i
        \<and> velocity msg ! i
            = write_data (snd (getEncoderSpeeds enc)) (velocity (ros_struct s)) ! i)"
proof -
  define rawpos where "rawpos = write_data (fst (snd (getEncodersTimed enc))) (position (ros_struct s))"
  define rawvel where "rawvel = write_data (snd (getEncoderSpeeds enc)) (velocity (ros_struct s))"
  have len: "subdevice_joints s \<le> length rawpos" "subdevice_joints s \<le> length rawvel"
    using assms(4,5) by (simp_all add: rawpos_def rawvel_def length_write_data)
  from run_publishes [OF assms(1-3), of env] assms(4,5) obtain s' msg where
    r: "run env s = Some (s', [Publish msg])"
    and c: "convert_loop ax (subdevice_joints s) 0 (jType_indeterminate env) rawpos rawvel
        = Some (position msg, velocity msg)"
    unfolding rawpos_def rawvel_def by auto
  from convert_loop_result [OF len, of ax 0 "jType_indeterminate env"] c
  have each: "\<forall>j t. 0 \<le> j \<and> j < subdevice_joints s \<and> snd (getJointType ax j) = Some t \<longrightarrow>
           position msg ! j = (if t = VOCAB_JOINTTYPE_REVOLUTE then convertDegreesToRadians (rawpos ! j) else rawpos ! j)
         \<and> velocity msg ! j = (if t = VOCAB_JOINTTYPE_REVOLUTE then convertDegreesToRadians (rawvel ! j) else rawvel ! j)"
    by auto
  have rev: "snd (getJointType ax i) = Some VOCAB_JOINTTYPE_REVOLUTE \<longrightarrow>
          position msg ! i = rawpos ! i * pi / 180 \<and> velocity msg ! i = rawvel ! i * pi / 180"
    using each assms(6) by (auto simp: convertDegreesToRadians_def)
  have other: "\<forall>t. snd (getJointType ax i) = Some t \<and> t \<noteq> VOCAB_JOINTTYPE_REVOLUTE \<longrightarrow>
          position msg ! i = rawpos ! i \<and> velocity msg ! i = rawvel ! i"
    using each assms(6) by auto
  from r rev other show ?thesis unfolding rawpos_def rawvel_def by blast
qed

lemma run_converts_classified_joints_example:
  "\<exists>s' msg. run lab attached_example = Some (s', [Publish msg])
     \<and> position msg = [pi, 90, pi / 2] \<and> velocity msg = [pi / 10, 9, pi / 20]"
proof -
  have h: "iEncodersTimed attached_example = Some three_encoders"
    "iAxisInfo attached_example = Some three_names"
    "m_publisher attached_example = Some (''/joint_states'', 10)"
    "subdevice_joints attached_example \<le> length (position (ros_struct attached_example))"
    "subdevice_joints attached_example \<le> length (velocity (ros_struct attached_example))"
    "0 < subdevice_joints attached_example" "1 < subdevice_joints attached_example"
    "2 < subdevice_joints attached_example"
    by (simp_all add: example_defs eval_defs)
  have t: "snd (getJointType three_names 0) = Some VOCAB_JOINTTYPE_REVOLUTE"
    "snd (getJointType three_names 1) = Some VOCAB_JOINTTYPE_PRISMATIC"
    "snd (getJointType three_names 2) = Some VOCAB_JOINTTYPE_REVOLUTE"
    by (simp_all add: three_names_def)
  have raw: "write_data (fst (snd (getEncodersTimed three_encoders)))
                (position (ros_struct attached_example)) = [180, 90, 90]"
    "write_data (snd (getEncoderSpeeds three_encoders))
                (velocity (ros_struct attached_example)) = [18, 9, 9]"
    by (simp_all add: example_defs eval_defs)
  from run_converts_classified_joints [OF h(1-5) h(6), of lab]
    run_converts_classified_joints [OF h(1-5) h(7), of lab]
    run_converts_classified_joints [OF h(1-5) h(8), of lab]
  obtain s' msg where r: "run lab attached_example = Some (s', [Publish msg])"
    and p: "position msg ! 0 = pi" "position msg ! 1 = 90" "position msg ! 2 = pi / 2"
    and v: "velocity msg ! 0 = pi / 10" "velocity msg ! 1 = 9" "velocity msg ! 2 = pi / 20"
    unfolding raw using t by auto
  from r p v show ?thesis by (auto simp add: example_defs eval_defs)
qed

section \<open>The statements of the specification\<close>

text \<open>
  C1. Each cycle computes the arithmetic mean of the per-joint timestamps and stores it
  in the member \<^verbatim>\<open>time\<close>, but the message it publishes is stamped with the reading of the
  node's clock, not with that mean. On the device whose joints report the timestamps 1, 2
  and 3, with the node's clock at 10, the mean is 2 and the published header stamp is 10.
\<close>

theorem published_stamp_is_clock_reading:
  "map_option (\<lambda>(s', e). (times_vec s', time_stamp s', e = [Publish (ros_struct s')],
                            header_stamp (ros_struct s')))
     (run lab attached_example)
   = Some ([1, 2, 3], 2, True, 10)"
  by (simp add: example_defs eval_defs)

text \<open>
  C2. The loop over the joints keeps the joint type in a variable declared outside the
  loop, never initialises it and does not look at the result of the type query, so a joint
  whose query stores nothing is treated as the joint before it (the first joint, as the
  indeterminate initial content says). On three joints with positions 180, 90 and 90
  degrees and velocities 18, 9 and 9, where the query stores revolute for the first and
  the third joint and fails for the second, the second joint, which the query did not
  classify as revolute, is published converted: the positions are \<open>\<pi>\<close>, \<open>\<pi> / 2\<close> and
  \<open>\<pi> / 2\<close>.
\<close>

theorem unclassified_joint_is_converted:
  "getJointType unclassified_names 1 = (False, None)
   \<and> map_option snd (run lab unclassified_example)
      = Some [Publish \<lparr>header_stamp = 10, name = [''joint0'', ''joint1'', ''joint2''],
               position = [pi, pi / 2, pi / 2],
               velocity = [pi / 10, pi / 20, pi / 20],
               effort = [0, 0, 0]\<rparr>]"
  by (simp add: example_defs eval_defs)

text \<open>
  C3, as stated, fails: \<^verbatim>\<open>open\<close> binds the subdevice before it looks for the node name,
  and returns on the missing name without releasing it. From the constructed object, with
  a subdevice and a topic name but no node name, \<^verbatim>\<open>open\<close> returns false and the object
  owns a bound device with three joints.
\<close>

theorem open_failure_keeps_subdevice:
  "unbound constructed
   \<and> returned (open lab config_subdevice_no_node constructed) = Some False
   \<and> map_option unbound (state_after (open lab config_subdevice_no_node constructed)) = Some False
   \<and> map_option subdevice_owned (state_after (open lab config_subdevice_no_node constructed)) = Some True
   \<and> map_option subdevice_joints (state_after (open lab config_subdevice_no_node constructed)) = Some 3"
  by (simp add: example_defs eval_defs unbound_def)

text \<open>
  C3, amended. For every configuration in which \<^verbatim>\<open>nodeName\<close> is absent, or \<^verbatim>\<open>topicName\<close>
  is absent, or \<^verbatim>\<open>period\<close> is present but not stored as a 64-bit float or not positive,
  \<^verbatim>\<open>open\<close> returns false, creates no publisher and does not touch the thread. When the
  configuration names no subdevice, or the period is the setting rejected, the device
  binding and its buffers are as before, so an unbound controller stays unbound.
\<close>

theorem open_rejects_bad_configuration:
  assumes "config ''nodeName'' = None \<or> config ''topicName'' = None \<or> period_invalid config"
  shows "\<exists>s' e. open env config s = Some (False, s', e)
     \<and> m_publisher s' = m_publisher s \<and> isRunning s' = isRunning s
     \<and> (config ''subdevice'' = None \<or> period_invalid config \<longrightarrow>
          same_binding s s' \<and> (unbound s \<longrightarrow> unbound s'))"
proof -
  from assms have bad: "name_missing config \<or> period_invalid config"
    by (auto simp: name_missing_def)
  from open_returns [of env config s] obtain ok s' e where
    o: "open env config s = Some (ok, s', e)"
    and b: "config ''subdevice'' = None \<or> period_invalid config \<longrightarrow> same_binding s s'"
    and f: "name_missing config \<or> period_invalid config \<longrightarrow> \<not> ok \<and> nothing_started s s'"
    by (elim exE conjE) (rule that)
  from f bad have nok: "\<not> ok" and ns: "nothing_started s s'" by blast+
  from o nok have "open env config s = Some (False, s', e)" by simp
  moreover from ns have "m_publisher s' = m_publisher s" "isRunning s' = isRunning s"
    by (simp_all add: nothing_started_def)
  moreover have "config ''subdevice'' = None \<or> period_invalid config \<longrightarrow>
          same_binding s s' \<and> (unbound s \<longrightarrow> unbound s')"
    using b same_binding_unbound by blast
  ultimately show ?thesis by blast
qed

theorem open_rejects_bad_configuration_witness:
  "(\<exists>s' e. open lab config_no_topic constructed = Some (False, s', e)
      \<and> m_publisher s' = None \<and> \<not> isRunning s' \<and> unbound s')
   \<and> (\<exists>s' e. open lab config_zero_period constructed = Some (False, s', e)
      \<and> m_publisher s' = None \<and> \<not> isRunning s' \<and> unbound s')
   \<and> (\<exists>s' e. open lab config_subdevice_no_node constructed = Some (False, s', e)
      \<and> m_publisher s' = None \<and> \<not> isRunning s')"
proof -
  have c: "unbound constructed" "m_publisher constructed = None" "\<not> isRunning constructed"
    by (simp_all add: constructed_def unbound_def)
  have h1: "config_no_topic ''topicName'' = None" "config_no_topic ''subdevice'' = None"
    by (simp_all add: config_no_topic_def)
  have h2: "period_invalid config_zero_period"
    by (simp add: period_invalid_def config_zero_period_def config_attach_later_def)
  have h3: "config_subdevice_no_node ''nodeName'' = None"
    by (simp add: config_subdevice_no_node_def)
  from open_rejects_bad_configuration [of config_no_topic lab constructed] h1 c
  have 1: "\<exists>s' e. open lab config_no_topic constructed = Some (False, s', e)
      \<and> m_publisher s' = None \<and> \<not> isRunning s' \<and> unbound s'"
    by auto
  from open_rejects_bad_configuration [of config_zero_period lab constructed] h2 c
  have 2: "\<exists>s' e. open lab config_zero_period constructed = Some (False, s', e)
      \<and> m_publisher s' = None \<and> \<not> isRunning s' \<and> unbound s'"
    by auto
  from open_rejects_bad_configuration [of config_subdevice_no_node lab constructed] h3 c
  have 3: "\<exists>s' e. open lab config_subdevice_no_node constructed = Some (False, s', e)
      \<and> m_publisher s' = None \<and> \<not> isRunning s'"
    by auto
  from 1 2 3 show ?thesis by blast
qed

text \<open>
  C4, as stated, fails: \<^verbatim>\<open>attach\<close> tests the flag \<^verbatim>\<open>subdevice_ready\<close>, which only \<^verbatim>\<open>open\<close>
  sets. After an external \<^verbatim>\<open>attach\<close> of a device with three joints, a second \<^verbatim>\<open>attach\<close>
  (directly or through \<^verbatim>\<open>attachAll\<close>) of a device with two joints returns true and the
  binding is that of the second device.
\<close>

theorem second_attach_replaces_binding:
  "bound_ok attached_example \<and> isRunning attached_example
   \<and> subdevice_joints attached_example = 3
   \<and> returned (attach lab (Some two_joints) attached_example) = Some True
   \<and> map_option subdevice_joints (state_after (attach lab (Some two_joints) attached_example))
        = Some 2
   \<and> returned (attachAll lab [(''second'', Some two_joints)] attached_example) = Some True"
  by (simp add: example_defs eval_defs bound_ok_def)

text \<open>
  C4, amended. In every state in which \<^verbatim>\<open>subdevice_ready\<close> is set, as it is after an
  \<^verbatim>\<open>open\<close> that created and bound its own subdevice, \<^verbatim>\<open>attach\<close> returns false and leaves
  the object unchanged, with no effect; \<^verbatim>\<open>attachAll\<close> never returns true there and leaves
  the object unchanged whenever it returns.
\<close>

theorem attach_rejected_when_subdevice_ready:
  assumes "subdevice_ready s"
  shows "attach env poly s = Some (False, s, [])
     \<and> (attachAll env p s = None \<or> (\<exists>e. attachAll env p s = Some (False, s, e)))"
proof -
  from assms have a: "\<And>q. attach env q s = Some (False, s, [])"
    by (simp add: attach_def)
  have "attachAll env p s = None \<or> (\<exists>e. attachAll env p s = Some (False, s, e))"
    by (cases "snd (p ! 0)") (simp_all add: attachAll_def a)
  with a show ?thesis by blast
qed

theorem attach_rejected_when_subdevice_ready_witness:
  "subdevice_ready owned_example \<and> subdevice_owned owned_example \<and> bound_ok owned_example
   \<and> attach lab (Some two_joints) owned_example = Some (False, owned_example, [])
   \<and> attachAll lab [(''second'', Some two_joints)] owned_example
        = Some (False, owned_example, [])"
proof -
  have r: "subdevice_ready owned_example" "subdevice_owned owned_example" "bound_ok owned_example"
    by (simp_all add: example_defs eval_defs bound_ok_def)
  from attach_rejected_when_subdevice_ready [OF r(1), of lab "Some two_joints" "[(''second'', Some two_joints)]"]
  have "attach lab (Some two_joints) owned_example = Some (False, owned_example, [])"
    and "attachAll lab [(''second'', Some two_joints)] owned_example = None
      \<or> (\<exists>e. attachAll lab [(''second'', Some two_joints)] owned_example = Some (False, owned_example, e))"
    by blast+
  moreover have "isValid two_joints" by (simp add: two_joints_def three_joints_def)
  ultimately show ?thesis using r by (auto simp: attachAll_def)
qed

text \<open>
  C5. \<^verbatim>\<open>setDevice\<close> returns false when the device lacks the position-control, the
  timed-encoder or the axis-info interface, and then the timestamp buffer and the message
  buffers are as they were: nothing is allocated. It returns false when the device has
  the position-control interface but the joint count cannot be read or is zero or
  negative. A device that has the three mandatory interfaces, a positive joint count and
  a name for every joint is bound with success when its torque interface is absent; the
  absence is not logged as an error.
\<close>

theorem setDevice_requires_interfaces:
  "(view_IPositionControl d = None \<or> view_IEncodersTimed d = None \<or> view_IAxisInfo d = None \<longrightarrow>
      (\<exists>s' e. setDevice (Some d) owned s = Some (False, s', e)
         \<and> times_vec s' = times_vec s \<and> ros_struct s' = ros_struct s))
   \<and> (\<forall>pc. view_IPositionControl d = Some pc
          \<and> (getAxes pc = None \<or> (\<exists>n. getAxes pc = Some n \<and> n \<le> 0)) \<longrightarrow>
        (\<exists>s' e. setDevice (Some d) owned s = Some (False, s', e)))
   \<and> (\<forall>pc enc ax n. view_IPositionControl d = Some pc \<and> view_IEncodersTimed d = Some enc
          \<and> view_IAxisInfo d = Some ax \<and> getAxes pc = Some n \<and> 0 < n
          \<and> (\<forall>j. j < nat n \<longrightarrow> getAxisName ax j \<noteq> None) \<longrightarrow>
        (\<exists>s' e. setDevice (Some (d\<lparr>view_ITorqueControl := None\<rparr>)) owned s = Some (True, s', e)
           \<and> iTorqueControl s' = None \<and> (\<forall>l. Log LError l \<notin> set e)))"
proof (intro conjI allI impI)
  assume "view_IPositionControl d = None \<or> view_IEncodersTimed d = None \<or> view_IAxisInfo d = None"
  from setDevice_missing [OF this, of owned s]
  show "\<exists>s' e. setDevice (Some d) owned s = Some (False, s', e)
         \<and> times_vec s' = times_vec s \<and> ros_struct s' = ros_struct s"
    by blast
next
  fix pc
  assume "view_IPositionControl d = Some pc
          \<and> (getAxes pc = None \<or> (\<exists>n. getAxes pc = Some n \<and> n \<le> 0))"
  then have "view_IPositionControl d = Some pc"
    "getAxes pc = None \<or> (\<exists>n. getAxes pc = Some n \<and> n \<le> 0)" by blast+
  from setDevice_bad_axes [OF this, of owned s]
  show "\<exists>s' e. setDevice (Some d) owned s = Some (False, s', e)" by blast
next
  fix pc enc ax n
  assume a: "view_IPositionControl d = Some pc \<and> view_IEncodersTimed d = Some enc
          \<and> view_IAxisInfo d = Some ax \<and> getAxes pc = Some n \<and> 0 < n
          \<and> (\<forall>j. j < nat n \<longrightarrow> getAxisName ax j \<noteq> None)"
  define d' where "d' = d\<lparr>view_ITorqueControl := None\<rparr>"
  from a have v: "view_IPositionControl d' = Some pc" "view_IEncodersTimed d' = Some enc"
    "view_IAxisInfo d' = Some ax" "getAxes pc = Some n" "0 < n"
    "\<forall>j. j < nat n \<longrightarrow> getAxisName ax j \<noteq> None"
    by (simp_all add: d'_def)
  have t: "view_ITorqueControl d' = None" by (simp add: d'_def)
  from setDevice_all_names [OF v, of owned s] t
  show "\<exists>s' e. setDevice (Some (d\<lparr>view_ITorqueControl := None\<rparr>)) owned s = Some (True, s', e)
           \<and> iTorqueControl s' = None \<and> (\<forall>l. Log LError l \<notin> set e)"
    unfolding d'_def by auto
qed

theorem setDevice_requires_interfaces_witness:
  "(\<exists>s' e. setDevice (Some no_interfaces) False constructed = Some (False, s', e)
      \<and> times_vec s' = [] \<and> position (ros_struct s') = [] \<and> velocity (ros_struct s') = []
      \<and> effort (ros_struct s') = [])
   \<and> (\<exists>s' e. setDevice (Some zero_joints) False constructed = Some (False, s', e))
   \<and> (\<exists>s' e. setDevice (Some three_joints) False constructed = Some (True, s', e)
      \<and> iTorqueControl s' = None \<and> (\<forall>l. Log LError l \<notin> set e))"
proof -
  have 1: "\<exists>s' e. setDevice (Some no_interfaces) False constructed = Some (False, s', e)
      \<and> times_vec s' = [] \<and> position (ros_struct s') = [] \<and> velocity (ros_struct s') = []
      \<and> effort (ros_struct s') = []"
    using setDevice_requires_interfaces [of no_interfaces False constructed]
    by (auto simp: no_interfaces_def constructed_def)
  have 2: "\<exists>s' e. setDevice (Some zero_joints) False constructed = Some (False, s', e)"
    using setDevice_requires_interfaces [of zero_joints False constructed]
    by (auto simp: zero_joints_def three_joints_def)
  have t: "three_joints\<lparr>view_ITorqueControl := None\<rparr> = three_joints"
    by (simp add: three_joints_def)
  have n: "\<forall>j. j < nat 3 \<longrightarrow> getAxisName three_names j \<noteq> None"
    by (simp add: three_names_def)
  have 3: "\<exists>s' e. setDevice (Some three_joints) False constructed = Some (True, s', e)
      \<and> iTorqueControl s' = None \<and> (\<forall>l. Log LError l \<notin> set e)"
    using setDevice_requires_interfaces [of three_joints False constructed] n
    unfolding t
    by (simp add: three_joints_def three_axes_def)
  from 1 2 3 show ?thesis by blast
qed

text \<open>
  C6, as stated, fails: nothing is rolled back. For a device with two joints whose second
  joint has no name, \<^verbatim>\<open>setDevice\<close> on the constructed object returns false and leaves the
  device pointer, the axis-info pointer, the joint count 2 and buffers of length 2 in the
  object; \<^verbatim>\<open>attach\<close> returns false in the same state.
\<close>

theorem name_failure_keeps_binding:
  "unbound constructed
   \<and> returned (setDevice (Some two_joints_one_name) False constructed) = Some False
   \<and> map_option unbound (state_after (setDevice (Some two_joints_one_name) False constructed))
        = Some False
   \<and> map_option subdevice_joints (state_after (setDevice (Some two_joints_one_name) False constructed))
        = Some 2
   \<and> map_option (\<lambda>s. length (position (ros_struct s)))
        (state_after (setDevice (Some two_joints_one_name) False constructed)) = Some 2
   \<and> map_option (\<lambda>s. iAxisInfo s = None)
        (state_after (setDevice (Some two_joints_one_name) False constructed)) = Some False
   \<and> returned (attach lab (Some two_joints_one_name) constructed) = Some False
   \<and> map_option unbound (state_after (attach lab (Some two_joints_one_name) constructed))
        = Some False"
  by (simp add: example_defs eval_defs unbound_def)

text \<open>
  C6, amended. For every device that has the mandatory interfaces and a positive joint
  count, and whose name query fails at some joint index, \<^verbatim>\<open>setDevice\<close> returns false and
  the joint names of the object are as before: the names collected so far are discarded.
  The device pointer, the ownership flag, the interface pointers, the joint count and the
  resized buffers stay as the bind set them.
\<close>

theorem setDevice_name_failure:
  assumes "view_IPositionControl d = Some pc" "view_IEncodersTimed d = Some enc"
    "view_IAxisInfo d = Some ax" "getAxes pc = Some n" "0 < n"
    "k < nat n" "getAxisName ax k = None"
  shows "\<exists>s' e. setDevice (Some d) owned s = Some (False, s', e)
      \<and> jointNames s' = jointNames s
      \<and> subdevice_ptr s' = Some d \<and> subdevice_owned s' = owned
      \<and> iPositionControl s' = Some pc \<and> iEncodersTimed s' = Some enc
      \<and> iTorqueControl s' = view_ITorqueControl d \<and> iAxisInfo s' = Some ax
      \<and> subdevice_joints s' = nat n
      \<and> length (times_vec s') = nat n
      \<and> length (position (ros_struct s')) = nat n
      \<and> length (velocity (ros_struct s')) = nat n
      \<and> length (effort (ros_struct s')) = nat n"
  using setDevice_name_missing [OF assms] .

theorem setDevice_name_failure_witness:
  "\<exists>s' e. setDevice (Some two_joints_one_name) False constructed = Some (False, s', e)
      \<and> jointNames s' = []
      \<and> subdevice_ptr s' = Some two_joints_one_name
      \<and> subdevice_joints s' = 2
      \<and> length (position (ros_struct s')) = 2"
proof -
  have v: "view_IPositionControl two_joints_one_name = Some \<lparr>getAxes = Some 2\<rparr>"
    "view_IEncodersTimed two_joints_one_name = Some three_encoders"
    "view_IAxisInfo two_joints_one_name = Some one_name"
    "getAxes \<lparr>getAxes = Some 2\<rparr> = Some 2" "(0::int) < 2" "1 < nat 2"
    "getAxisName one_name 1 = None"
    by (simp_all add: two_joints_one_name_def one_name_def)
  from setDevice_name_failure [OF v, of False constructed]
  show ?thesis by (auto simp: constructed_def)
qed

text \<open>
  C7, as stated, fails: the result of each read is discarded and nothing is logged. In a
  state whose buffers hold the values published by the previous cycle, a cycle in which
  the position, speed and torque reads all return false and store nothing has the
  published message as its only effect; there is no log entry.
\<close>

theorem failed_reads_not_logged:
  "iEncodersTimed stale_example = Some failing_encoders
   \<and> iTorqueControl stale_example = Some failing_torques
   \<and> fst (getEncodersTimed failing_encoders) = False
   \<and> fst (getEncoderSpeeds failing_encoders) = False
   \<and> fst (getTorques failing_torques) = False
   \<and> position (ros_struct stale_example) = [pi, 90, pi / 2]
   \<and> map_option snd (run lab stale_example)
      = Some [Publish \<lparr>header_stamp = 10, name = [''joint0'', ''joint1'', ''joint2''],
               position = [pi * pi / 180, 90, pi * pi / 360],
               velocity = [pi * pi / 1800, 9, pi * pi / 3600],
               effort = [0, 0, 0]\<rparr>]"
  by (simp add: example_defs eval_defs)

text \<open>
  C7, amended. In a cycle on a bound device, whatever the reads return, the failure of a
  read is not logged and does not abort the cycle: the cycle is not skipped, it assembles
  and publishes exactly one message, with the joint names and with buffers of the same
  lengths, and has no other effect. A cell of the effort buffer or of the timestamp
  buffer that the read did not store to keeps the content the previous cycle left, and
  the efforts are published from that buffer.
\<close>

theorem failed_reads_still_publish:
  assumes "iEncodersTimed s = Some enc" "iAxisInfo s = Some ax" "m_publisher s = Some pub"
    "subdevice_joints s \<le> length (position (ros_struct s))"
    "subdevice_joints s \<le> length (velocity (ros_struct s))"
  shows "\<exists>s' msg. run env s = Some (s', [Publish msg])
     \<and> name msg = jointNames s
     \<and> length (position msg) = length (position (ros_struct s))
     \<and> length (velocity msg) = length (velocity (ros_struct s))
     \<and> length (effort msg) = length (effort (ros_struct s))
     \<and> (\<forall>i. i < length (effort (ros_struct s)) \<longrightarrow>
          effort msg ! i =
            (case iTorqueControl s of
               None \<Rightarrow> effort (ros_struct s) ! i
             | Some tq \<Rightarrow>
                 (case snd (getTorques tq) i of
                    None \<Rightarrow> effort (ros_struct s) ! i
                  | Some v \<Rightarrow> v)))
     \<and> length (times_vec s') = length (times_vec s)
     \<and> (\<forall>i. i < length (times_vec s) \<longrightarrow>
          times_vec s' ! i =
            (case snd (snd (getEncodersTimed enc)) i of
               None \<Rightarrow> times_vec s ! i
             | Some v \<Rightarrow> v))"
proof -
  define rawpos where "rawpos = write_data (fst (snd (getEncodersTimed enc))) (position (ros_struct s))"
  define rawvel where "rawvel = write_data (snd (getEncoderSpeeds enc)) (velocity (ros_struct s))"
  have len: "subdevice_joints s \<le> length rawpos" "subdevice_joints s \<le> length rawvel"
    using assms(4,5) by (simp_all add: rawpos_def rawvel_def length_write_data)
  from run_publishes [OF assms(1-3), of env] assms(4,5) obtain s' msg where
    r: "run env s = Some (s', [Publish msg])"
    and nm: "name msg = jointNames s"
    and eff: "effort msg = (case iTorqueControl s of
                        None \<Rightarrow> effort (ros_struct s)
                      | Some tq \<Rightarrow> write_data (snd (getTorques tq)) (effort (ros_struct s)))"
    and c: "convert_loop ax (subdevice_joints s) 0 (jType_indeterminate env) rawpos rawvel
        = Some (position msg, velocity msg)"
    and tm: "times_vec s' = write_data (snd (snd (getEncodersTimed enc))) (times_vec s)"
    unfolding rawpos_def rawvel_def by auto
  from convert_loop_result [OF len, of ax 0 "jType_indeterminate env"] c
  have pv: "length (position msg) = length (position (ros_struct s))"
    "length (velocity msg) = length (velocity (ros_struct s))"
    by (auto simp: rawpos_def rawvel_def length_write_data)
  have el: "length (effort msg) = length (effort (ros_struct s))"
    using eff by (simp add: length_write_data split: option.splits)
  have ec: "\<forall>i. i < length (effort (ros_struct s)) \<longrightarrow>
          effort msg ! i =
            (case iTorqueControl s of
               None \<Rightarrow> effort (ros_struct s) ! i
             | Some tq \<Rightarrow>
                 (case snd (getTorques tq) i of
                    None \<Rightarrow> effort (ros_struct s) ! i
                  | Some v \<Rightarrow> v))"
    using eff by (simp add: nth_write_data split: option.splits)
  have tl: "length (times_vec s') = length (times_vec s)"
    using tm by (simp add: length_write_data)
  have tc: "\<forall>i. i < length (times_vec s) \<longrightarrow>
          times_vec s' ! i =
            (case snd (snd (getEncodersTimed enc)) i of
               None \<Rightarrow> times_vec s ! i
             | Some v \<Rightarrow> v)"
    using tm by (simp add: nth_write_data)
  from r nm pv el ec tl tc show ?thesis by blast
qed

theorem failed_reads_still_publish_witness:
  "fst (getEncodersTimed failing_encoders) = False
   \<and> fst (getTorques failing_torques) = False
   \<and> (\<exists>s' msg. run lab stale_example = Some (s', [Publish msg])
        \<and> name msg = [''joint0'', ''joint1'', ''joint2'']
        \<and> length (position msg) = 3 \<and> length (velocity msg) = 3
        \<and> length (effort msg) = 3 \<and> effort msg ! 0 = 0
        \<and> length (times_vec s') = 3
        \<and> times_vec s' ! 0 = 1 \<and> times_vec s' ! 2 = 3)"
proof -
  have h: "iEncodersTimed stale_example = Some failing_encoders"
    "iAxisInfo stale_example = Some three_names"
    "m_publisher stale_example = Some (''/joint_states'', 10)"
    "subdevice_joints stale_example \<le> length (position (ros_struct stale_example))"
    "subdevice_joints stale_example \<le> length (velocity (ros_struct stale_example))"
    by (simp_all add: example_defs eval_defs)
  have g: "iTorqueControl stale_example = Some failing_torques"
    "jointNames stale_example = [''joint0'', ''joint1'', ''joint2'']"
    "length (position (ros_struct stale_example)) = 3"
    "length (velocity (ros_struct stale_example)) = 3"
    "effort (ros_struct stale_example) = [0, 0, 0]"
    "times_vec stale_example = [1, 2, 3]"
    by (simp_all add: example_defs eval_defs)
  have t: "snd (snd (getEncodersTimed failing_encoders)) = (\<lambda>i. None)"
    "snd (getTorques failing_torques) = (\<lambda>i. None)"
    "fst (getEncodersTimed failing_encoders) = False"
    "fst (getTorques failing_torques) = False"
    by (simp_all add: failing_encoders_def failing_torques_def)
  from failed_reads_still_publish [OF h, of lab] obtain s' msg where
    r: "run lab stale_example = Some (s', [Publish msg])"
    and nm: "name msg = jointNames stale_example"
    and pv: "length (position msg) = length (position (ros_struct stale_example))"
      "length (velocity msg) = length (velocity (ros_struct stale_example))"
    and el: "length (effort msg) = length (effort (ros_struct stale_example))"
    and ec: "\<forall>i. i < length (effort (ros_struct stale_example)) \<longrightarrow>
          effort msg ! i =
            (case iTorqueControl stale_example of
               None \<Rightarrow> effort (ros_struct stale_example) ! i
             | Some tq \<Rightarrow>
                 (case snd (getTorques tq) i of
                    None \<Rightarrow> effort (ros_struct stale_example) ! i
                  | Some v \<Rightarrow> v))"
    and tl: "length (times_vec s') = length (times_vec stale_example)"
    and tc: "\<forall>i. i < length (times_vec stale_example) \<longrightarrow>
          times_vec s' ! i =
            (case snd (snd (getEncodersTimed failing_encoders)) i of
               None \<Rightarrow> times_vec stale_example ! i
             | Some v \<Rightarrow> v)"
    by (elim exE conjE) (rule that)
  from ec [rule_format, of 0] g t have e0: "effort msg ! 0 = 0" by simp
  from tc [rule_format, of 0] g t have t0: "times_vec s' ! 0 = 1" by simp
  from tc [rule_format, of 2] g t have t2: "times_vec s' ! 2 = 3" by simp
  from nm pv el tl g have
    "name msg = [''joint0'', ''joint1'', ''joint2'']"
    "length (position msg) = 3" "length (velocity msg) = 3"
    "length (effort msg) = 3" "length (times_vec s') = 3"
    by simp_all
  with r e0 t0 t2 t(3,4) show ?thesis by blast
qed

text \<open>
  C8. \<^verbatim>\<open>detach\<close> returns false whenever the current binding is self-owned and leaves the
  object as it is. When the binding is not self-owned, \<^verbatim>\<open>detach\<close> returns true, stops the
  thread if it is running (and does nothing to the thread otherwise), releases the
  binding without closing or deleting the device, and keeps the node name, the topic
  name, the period and the publisher: the controller is configured and unbound.
\<close>

theorem detach_owned_or_external:
  "(subdevice_owned s \<longrightarrow> detach s = Some (False, s, []))
   \<and> (\<not> subdevice_owned s \<longrightarrow>
        (\<exists>s'. detach s = Some (True, s', if isRunning s then [ThreadStop] else [])
           \<and> unbound s' \<and> \<not> isRunning s' \<and> same_setup s s'))"
  by (simp add: detach_def closeDevice_def stop_def unbound_def same_setup_def)

theorem detach_owned_or_external_witness:
  "subdevice_owned owned_example
   \<and> detach owned_example = Some (False, owned_example, [])
   \<and> \<not> subdevice_owned attached_example \<and> isRunning attached_example
   \<and> (\<exists>s'. detach attached_example = Some (True, s', [ThreadStop])
          \<and> unbound s' \<and> \<not> isRunning s' \<and> same_setup attached_example s')"
proof -
  have own: "subdevice_owned owned_example"
    by (simp add: example_defs eval_defs)
  have ext: "\<not> subdevice_owned attached_example" "isRunning attached_example"
    by (simp_all add: example_defs eval_defs)
  from detach_owned_or_external [of owned_example] own
  have "detach owned_example = Some (False, owned_example, [])" by blast
  moreover from detach_owned_or_external [of attached_example] ext
  have "\<exists>s'. detach attached_example = Some (True, s', [ThreadStop])
          \<and> unbound s' \<and> \<not> isRunning s' \<and> same_setup attached_example s'" by simp
  ultimately show ?thesis using own ext by blast
qed

text \<open>
  C9. \<^verbatim>\<open>close\<close> is idempotent. In every state the object can be in, \<^verbatim>\<open>close\<close> returns
  true; it stops the thread if it runs, closes and deletes the device only if the object
  owns it, and leaves no device bound: the ownership flag, the joint count and the
  interface pointers are cleared and the thread is stopped. A second \<^verbatim>\<open>close\<close> returns
  true again, leaves that state as it is, and its only effect is the warning of
  \<^verbatim>\<open>closePorts\<close>: no device is closed or deleted a second time.
\<close>

theorem close_idempotent:
  assumes "reachable s"
  shows "\<exists>s1. close s =
           Some (True, s1,
             (if isRunning s then [ThreadStop] else [])
             @ (if subdevice_owned s then [DeviceClose, DeviceDelete] else [])
             @ [Log LWarning ''FIXME: closePorts() is not implemented yet!''])
         \<and> unbound s1 \<and> \<not> isRunning s1
         \<and> close s1 =
             Some (True, s1, [Log LWarning ''FIXME: closePorts() is not implemented yet!''])"
proof -
  from assms have inv: "owner_has_device s" by (rule reachable_owner)
  define s0 where "s0 = (if isRunning s then s\<lparr>isRunning := False\<rparr> else s)"
  have s0: "owner_has_device s0" "\<not> isRunning s0" "subdevice_owned s0 = subdevice_owned s"
    using inv by (simp_all add: s0_def owner_has_device_def)
  from closeDevice_returns [OF s0(1)] obtain s1 where
    cd: "closeDevice s0 = Some (s1, if subdevice_owned s0 then [DeviceClose, DeviceDelete] else [])"
    and u: "unbound s1" and run: "isRunning s1 = isRunning s0" by auto
  have first: "close s =
           Some (True, s1,
             (if isRunning s then [ThreadStop] else [])
             @ (if subdevice_owned s then [DeviceClose, DeviceDelete] else [])
             @ [Log LWarning ''FIXME: closePorts() is not implemented yet!''])"
    using cd s0(3)
    by (cases "isRunning s"; cases "subdevice_owned s")
      (simp_all add: close_def stop_def closePorts_def s0_def)
  have second: "close s1 =
             Some (True, s1, [Log LWarning ''FIXME: closePorts() is not implemented yet!''])"
    using closeDevice_unbound [OF u] run s0(2) by (simp add: close_def closePorts_def)
  from first second u run s0(2) show ?thesis by simp
qed

theorem close_idempotent_witness:
  "reachable owned_example \<and> isRunning owned_example \<and> subdevice_owned owned_example
   \<and> (\<exists>s1. close owned_example =
           Some (True, s1,
             [ThreadStop, DeviceClose, DeviceDelete,
              Log LWarning ''FIXME: closePorts() is not implemented yet!''])
         \<and> unbound s1 \<and> \<not> isRunning s1
         \<and> close s1 =
             Some (True, s1, [Log LWarning ''FIXME: closePorts() is not implemented yet!'']))"
proof -
  have r: "reachable owned_example" by (rule reachable_examples)
  have f: "isRunning owned_example" "subdevice_owned owned_example"
    by (simp_all add: example_defs eval_defs)
  from close_idempotent [OF r] f r show ?thesis by simp
qed

text \<open>
  C10. When the period setting is present with a positive value stored as an integer,
  \<^verbatim>\<open>open\<close> returns failure, with the object unchanged: only a value stored as a 64-bit
  float is accepted.
\<close>

theorem open_rejects_integer_period:
  assumes "config ''period'' = Some (VInt32 n)" "0 < n"
  shows "open env config s =
           Some (False, s, [Log LError ''period parameter is not a double value''])"
  using assms by (simp add: open_def check_def find_value_def)

theorem open_rejects_integer_period_witness:
  "config_int_period ''period'' = Some (VInt32 1)
   \<and> open lab config_int_period constructed =
       Some (False, constructed, [Log LError ''period parameter is not a double value''])"
proof -
  have p: "config_int_period ''period'' = Some (VInt32 1)"
    by (simp add: config_int_period_def)
  from open_rejects_integer_period [of config_int_period 1 lab constructed] p
  show ?thesis by simp
qed

end
